theory Spec2Isabelle
  imports Main
begin

section \<open>pgee: PostgreSQL LISTEN/NOTIFY as an event emitter (lib/index.js)\<close>

subsection \<open>JavaScript values\<close>

text \<open>
  The values that reach the library: channel designators, callbacks, listeners, messages,
  errors. A function is known by an identifier only; an object is a plain object given by
  its own data properties; \<open>JError m\<close> is an instance of \<open>Error\<close> with message \<open>m\<close>;
  \<open>JNum\<close> holds the integer-valued numbers.
\<close>

datatype jsval =
    JUndefined
  | JNull
  | JBool bool
  | JNum int
  | JStr string
  | JSymbol nat
  | JFn nat
  | JObj "(string \<times> jsval) list"
  | JError string

fun typeof :: "jsval \<Rightarrow> string" where
  "typeof JUndefined = ''undefined''"
| "typeof JNull = ''object''"
| "typeof (JBool b) = ''boolean''"
| "typeof (JNum n) = ''number''"
| "typeof (JStr s) = ''string''"
| "typeof (JSymbol n) = ''symbol''"
| "typeof (JFn f) = ''function''"
| "typeof (JObj fs) = ''object''"
| "typeof (JError m) = ''object''"

text \<open>The conversion to a boolean made by \<open>if (v)\<close> and \<open>!!v\<close>.\<close>

fun truthy :: "jsval \<Rightarrow> bool" where
  "truthy JUndefined = False"
| "truthy JNull = False"
| "truthy (JBool b) = b"
| "truthy (JNum n) = (n \<noteq> 0)"
| "truthy (JStr s) = (s \<noteq> [])"
| "truthy v = True"

text \<open>
  The property read \<open>v.k\<close> on a value that passed the object test, for the three names the
  library reads (\<open>channel\<close>, \<open>listener\<close>, \<open>removeListeners\<close>): none of them is inherited from
  \<open>Object.prototype\<close> or \<open>Error.prototype\<close>, so a name that is no own property reads as
  \<open>undefined\<close>.
\<close>

fun get :: "jsval \<Rightarrow> string \<Rightarrow> jsval" where
  "get (JObj fs) k = (case map_of fs k of Some v \<Rightarrow> v | None \<Rightarrow> JUndefined)"
| "get v k = JUndefined"

text \<open>
  Three operations of the JavaScript runtime are used by the library and are no part of it:
  the string coercion \<open>v + ''\<close>, \<open>JSON.stringify\<close> and \<open>JSON.parse\<close>. Each one returns
  (\<open>Inr\<close>) or throws (\<open>Inl\<close> the thrown value). They are parameters of the model.
  \<open>JSON.stringify\<close> applied to a string always returns, with the quoted text
  (\<open>quote_string\<close>); on other values it returns or throws (\<open>stringify_other\<close>).
\<close>

record runtime =
  to_string :: "jsval \<Rightarrow> jsval + string"
  quote_string :: "string \<Rightarrow> string"
  stringify_other :: "jsval \<Rightarrow> jsval + jsval"
  JSON_parse :: "string \<Rightarrow> jsval + jsval"

definition JSON_stringify :: "runtime \<Rightarrow> jsval \<Rightarrow> jsval + jsval" where
  "JSON_stringify rt v =
     (case v of JStr t \<Rightarrow> Inr (JStr (quote_string rt t)) | _ \<Rightarrow> stringify_other rt v)"

subsection \<open>The instance and what it does to its surroundings\<close>

text \<open>
  A call either returns or throws. \<open>ThrowsUnhandled v\<close> is the \<open>Error\<close> that Node's emitter
  builds around a value \<open>v\<close> that is no \<open>Error\<close> when an \<open>'error'\<close> event has no listener
  (its message differs between Node versions).
\<close>

datatype completion = Normal | Throws jsval | ThrowsUnhandled jsval

text \<open>
  Commands sent out: a query on a client (\<open>connection.query(sql[, params], cb)\<close>) and a
  request to the pool (\<open>Postgresql.connect(options, cb)\<close>).
\<close>

datatype command = Query nat string "jsval list" | PoolConnect jsval

text \<open>
  What happens locally: the base emitter's \<open>emit\<close> is called for an event with arguments,
  and a function supplied by the caller (callback, listener, the pool's release function)
  is called with arguments. Functions of the caller are opaque: the model records the call
  and takes it to return.
\<close>

datatype effect = Fired string "jsval list" | Called jsval "jsval list"

text \<open>
  The callbacks the library hands to \<open>Postgresql.connect\<close> and to \<open>connection.query\<close>, with
  the variables each closure captured. They wait in \<open>pending\<close> until the database answers.
\<close>

datatype cont =
    ConnectCb jsval
  | ListenCb string jsval jsval
  | UnlistenCb string bool jsval
  | EmitCb

text \<open>
  The fields of a \<open>PgEe\<close> instance (\<open>_channels\<close>, \<open>_done\<close>, \<open>_options\<close>, \<open>_connection\<close>, the
  connection captured by the \<open>_tearDownConnection\<close> closure, the listener table inherited
  from \<open>EventEmitter\<close>, in order of registration), and its surroundings: the clients that
  carry this instance's \<open>'error'\<close> and \<open>'notification'\<close> handlers, the commands sent so far,
  the callbacks not yet answered and the local effects so far. A client is known by a
  number; \<open>None\<close> is JavaScript's \<open>null\<close> connection.
\<close>

record pgee =
  channels :: "string list"
  pg_done :: jsval
  options :: jsval
  connection :: "nat option"
  tearDown :: "nat option"
  listeners :: "(string \<times> jsval) list"
  hooked :: "nat list"
  commands :: "command list"
  pending :: "cont list"
  trace :: "effect list"

type_synonym result = "pgee \<times> completion"

definition and_then :: "result \<Rightarrow> (pgee \<Rightarrow> result) \<Rightarrow> result" where
  "and_then r f = (case r of (s, Normal) \<Rightarrow> f s | (s, t) \<Rightarrow> (s, t))"

subsection \<open>The base emitter's \<open>emit\<close> and the instance's \<open>emit\<close>\<close>

text \<open>
  \<open>EventEmitter\<close> is Node's, not the library's; it is modelled from its documented contract
  and from \<open>lib/events.js\<close>. The base \<open>emit\<close> calls the listeners of the event in order of
  registration, and throws when the event is \<open>'error'\<close> and has no listener. The listeners
  of an instance are kept as one list of (event, listener) pairs in order of registration.
\<close>

definition listeners_of :: "pgee \<Rightarrow> string \<Rightarrow> jsval list" where
  "listeners_of s ev = map snd (filter (\<lambda>p. fst p = ev) (listeners s))"

definition unhandled :: "jsval list \<Rightarrow> completion" where
  "unhandled args =
     (case args of
        [] \<Rightarrow> ThrowsUnhandled JUndefined
      | JError m # _ \<Rightarrow> Throws (JError m)
      | v # _ \<Rightarrow> ThrowsUnhandled v)"

definition EventEmitter_emit :: "pgee \<Rightarrow> string \<Rightarrow> jsval list \<Rightarrow> result" where
  "EventEmitter_emit s ev args =
     (let hs = listeners_of s ev;
          s1 = s\<lparr>trace := trace s @ [Fired ev args]\<rparr>
      in if ev = ''error'' \<and> hs = [] then (s1, unhandled args)
         else (s1\<lparr>trace := trace s1 @ map (\<lambda>h. Called h args) hs\<rparr>, Normal))"

text \<open>\<open>_emit(context, event, message)\<close>: the base emitter's \<open>emit\<close>, applied to the instance.\<close>

definition internal_emit :: "pgee \<Rightarrow> string \<Rightarrow> jsval \<Rightarrow> result" where
  "internal_emit context event message = EventEmitter_emit context event [message]"

definition not_connected :: jsval where
  "not_connected = JError ''not connected to database''"

text \<open>The text of the notify command, \<open>'SELECT pg_notify($1, $2)'\<close>.\<close>

definition notify_sql :: string where
  "notify_sql = ''SELECT pg_notify($1, $2)''"

text \<open>
  \<open>PgEe.prototype.emit\<close> (lines 136-153), which overrides the base \<open>emit\<close> on an instance.
  It stands here, before the rest of the emitter, because the emitter calls it: see below.
\<close>

definition emit_cb :: "pgee \<Rightarrow> jsval \<Rightarrow> result" where
  "emit_cb s err = (if truthy err then internal_emit s ''error'' err else (s, Normal))"

definition emit :: "runtime \<Rightarrow> pgee \<Rightarrow> jsval \<Rightarrow> jsval \<Rightarrow> result" where
  "emit rt s event message =
     (if event = JStr ''error'' then internal_emit s ''error'' message
      else (case connection s of
              None \<Rightarrow> internal_emit s ''error'' not_connected
            | Some c \<Rightarrow>
                (case JSON_stringify rt message of
                   Inl e \<Rightarrow> (s, Throws e)
                 | Inr p \<Rightarrow>
                     (s\<lparr>commands := commands s @
                                     [Query c notify_sql [event, p]],
                        pending := pending s @ [EmitCb]\<rparr>, Normal))))"

subsection \<open>The base emitter's \<open>on\<close> and \<open>removeAllListeners\<close>\<close>

text \<open>
  Node announces every listener it adds or removes: \<open>addListener\<close> calls
  \<open>this.emit('newListener', type, listener)\<close> before it adds, when a \<open>'newListener'\<close> listener
  is registered, and \<open>removeListener\<close> calls \<open>this.emit('removeListener', type, listener)\<close>
  after it has removed, when a \<open>'removeListener'\<close> listener is still registered. On a \<open>PgEe\<close>
  instance \<open>this.emit\<close> is the overriding \<open>emit\<close> above, which takes the event and one
  message: the announcement becomes a \<open>pg_notify\<close> with the event type as message (or the
  not-connected error), and the listeners of the announcement are not called.
\<close>

definition EventEmitter_on :: "runtime \<Rightarrow> pgee \<Rightarrow> string \<Rightarrow> jsval \<Rightarrow> result" where
  "EventEmitter_on rt s ev l =
     and_then
       (if listeners_of s ''newListener'' \<noteq> []
        then emit rt s (JStr ''newListener'') (JStr ev) else (s, Normal))
       (\<lambda>s1. (s1\<lparr>listeners := listeners s1 @ [(ev, l)]\<rparr>, Normal))"

text \<open>Taking the last listener of an event out of the list.\<close>

fun remove_first :: "string \<Rightarrow> (string \<times> jsval) list \<Rightarrow> (string \<times> jsval) list" where
  "remove_first ev [] = []"
| "remove_first ev (p # ps) = (if fst p = ev then ps else p # remove_first ev ps)"

definition remove_last :: "string \<Rightarrow> (string \<times> jsval) list \<Rightarrow> (string \<times> jsval) list" where
  "remove_last ev ps = rev (remove_first ev (rev ps))"

text \<open>
  The loop of \<open>removeAllListeners(type)\<close> when removals are announced: the listeners of the
  event, as many as there were at the start, are removed last first, each removal followed
  by its announcement. A throwing announcement ends the loop.
\<close>

fun remove_each :: "runtime \<Rightarrow> pgee \<Rightarrow> string \<Rightarrow> nat \<Rightarrow> result" where
  "remove_each rt s ev 0 = (s, Normal)"
| "remove_each rt s ev (Suc k) =
     (let s1 = s\<lparr>listeners := remove_last ev (listeners s)\<rparr>
      in and_then
           (if listeners_of s1 ''removeListener'' \<noteq> []
            then emit rt s1 (JStr ''removeListener'') (JStr ev) else (s1, Normal))
           (\<lambda>s2. remove_each rt s2 ev k))"

definition removeAllListeners_of :: "runtime \<Rightarrow> pgee \<Rightarrow> string \<Rightarrow> result" where
  "removeAllListeners_of rt s ev =
     (if listeners_of s ''removeListener'' = []
      then (s\<lparr>listeners := filter (\<lambda>p. fst p \<noteq> ev) (listeners s)\<rparr>, Normal)
      else remove_each rt s ev (length (listeners_of s ev)))"

text \<open>
  The own keys of the emitter's table, in the order JavaScript enumerates them: the keys
  that are array indices (canonical decimal numerals up to \<open>2^32 - 2\<close>) in ascending order,
  then the other keys in the order in which they were created.
\<close>

definition index_value :: "string \<Rightarrow> nat" where
  "index_value k = foldl (\<lambda>n c. 10 * n + (of_char c - 48)) 0 k"

definition is_index :: "string \<Rightarrow> bool" where
  "is_index k =
     (k \<noteq> [] \<and> list_all (\<lambda>c. c \<in> set ''0123456789'') k
      \<and> (if hd k = CHR ''0'' then k = ''0'' else True)
      \<and> index_value k \<le> 4294967294)"

definition own_keys :: "(string \<times> jsval) list \<Rightarrow> string list" where
  "own_keys ps =
     (let ks = rev (remdups (rev (map fst ps)))
      in sort_key index_value (filter is_index ks) @ filter (\<lambda>k. \<not> is_index k) ks)"

fun remove_keys :: "runtime \<Rightarrow> pgee \<Rightarrow> string list \<Rightarrow> result" where
  "remove_keys rt s [] = (s, Normal)"
| "remove_keys rt s (k # ks) =
     and_then (removeAllListeners_of rt s k) (\<lambda>s1. remove_keys rt s1 ks)"

text \<open>
  \<open>removeAllListeners(type)\<close> and, for \<open>None\<close>, \<open>removeAllListeners()\<close>: without a
  \<open>'removeListener'\<close> listener the listeners are dropped at once; with one, every key other
  than \<open>'removeListener'\<close> is emptied in turn, then \<open>'removeListener'\<close> itself, and the table
  is reset.
\<close>

definition EventEmitter_removeAllListeners :: "runtime \<Rightarrow> pgee \<Rightarrow> string option \<Rightarrow> result" where
  "EventEmitter_removeAllListeners rt s ev =
     (case ev of
        Some e \<Rightarrow> removeAllListeners_of rt s e
      | None \<Rightarrow>
          if listeners_of s ''removeListener'' = [] then (s\<lparr>listeners := []\<rparr>, Normal)
          else
            and_then
              (remove_keys rt s
                 (filter (\<lambda>k. k \<noteq> ''removeListener'') (own_keys (listeners s))))
              (\<lambda>s1. and_then (removeAllListeners_of rt s1 ''removeListener'')
                      (\<lambda>s2. (s2\<lparr>listeners := []\<rparr>, Normal))))"

subsection \<open>Helpers of lib/index.js\<close>

text \<open>
  \<open>_callbackOrEmit(context, callback, event, ...args)\<close>: with a function as callback, the
  callback gets the arguments after \<open>event\<close> (offset 3); otherwise the base emitter's \<open>emit\<close>
  gets \<open>event\<close> and the arguments after it (offset 2).
\<close>

definition callbackOrEmit :: "pgee \<Rightarrow> jsval \<Rightarrow> string \<Rightarrow> jsval list \<Rightarrow> result" where
  "callbackOrEmit context callback event args =
     (if typeof callback = ''function''
      then (context\<lparr>trace := trace context @ [Called callback args]\<rparr>, Normal)
      else EventEmitter_emit context event args)"

text \<open>\<open>Array.prototype.indexOf\<close> on the registry: the first position, or \<open>-1\<close>.\<close>

fun indexOf :: "string list \<Rightarrow> string \<Rightarrow> int" where
  "indexOf [] c = -1"
| "indexOf (x # xs) c =
     (if x = c then 0 else (let i = indexOf xs c in if i = -1 then -1 else i + 1))"

text \<open>\<open>xs.splice(index, 1)\<close> for an index that \<open>indexOf\<close> returned and that is not \<open>-1\<close>.\<close>

definition splice1 :: "string list \<Rightarrow> int \<Rightarrow> string list" where
  "splice1 xs index = take (nat index) xs @ drop (nat index + 1) xs"

text \<open>
  \<open>_setupConnection\<close>: puts the two handlers on the current connection and stores the
  closure that takes them off again from that same connection. The argument \<open>c\<close> is the
  value of \<open>this._connection\<close>, which both callers have just assigned.
\<close>

definition setupConnection :: "pgee \<Rightarrow> nat \<Rightarrow> pgee" where
  "setupConnection s c = s\<lparr>hooked := hooked s @ [c], tearDown := Some c\<rparr>"

subsection \<open>Constructor and public operations\<close>

text \<open>The argument of the constructor: a \<open>pg.Client\<close>, or anything else (connection options).\<close>

datatype ctor_arg = Client nat | Config jsval

definition PgEe :: "ctor_arg \<Rightarrow> pgee" where
  "PgEe arg =
     (let this = \<lparr>channels = [], pg_done = JNull, options = JNull, connection = None,
                  tearDown = None, listeners = [], hooked = [], commands = [],
                  pending = [], trace = []\<rparr>
      in case arg of
           Client c \<Rightarrow> setupConnection (this\<lparr>options := JNull, connection := Some c\<rparr>) c
         | Config v \<Rightarrow> this\<lparr>options := v, connection := None\<rparr>)"

definition connect :: "pgee \<Rightarrow> jsval \<Rightarrow> result" where
  "connect s callback =
     (if connection s \<noteq> None then callbackOrEmit s callback ''connect'' []
      else (s\<lparr>commands := commands s @ [PoolConnect (options s)],
               pending := pending s @ [ConnectCb callback]\<rparr>, Normal))"

definition connect_cb :: "pgee \<Rightarrow> jsval \<Rightarrow> jsval \<Rightarrow> nat \<Rightarrow> jsval \<Rightarrow> result" where
  "connect_cb s callback err conn dn =
     (if truthy err then callbackOrEmit s callback ''error'' [err]
      else callbackOrEmit
             (setupConnection (s\<lparr>pg_done := dn, connection := Some conn\<rparr>) conn)
             callback ''connect'' [])"

text \<open>The command texts \<open>`LISTEN "${channel}"`\<close> and \<open>`UNLISTEN "${channel}"`\<close>.\<close>

definition listen_sql :: "string \<Rightarrow> string" where
  \<open>listen_sql channel = ''LISTEN "'' @ channel @ ''"''\<close>

definition unlisten_sql :: "string \<Rightarrow> string" where
  \<open>unlisten_sql channel = ''UNLISTEN "'' @ channel @ ''"''\<close>

definition listen_cb :: "runtime \<Rightarrow> pgee \<Rightarrow> string \<Rightarrow> jsval \<Rightarrow> jsval \<Rightarrow> jsval \<Rightarrow> result" where
  "listen_cb rt s channel listener callback err =
     (if truthy err then callbackOrEmit s callback ''error'' [err]
      else
        let s1 = (if indexOf (channels s) channel = -1
                  then s\<lparr>channels := channels s @ [channel]\<rparr> else s)
        in and_then
             (if typeof listener = ''function''
              then EventEmitter_on rt s1 channel listener else (s1, Normal))
             (\<lambda>s2. callbackOrEmit s2 callback ''listen'' [JNull, JStr channel]))"

definition listen :: "runtime \<Rightarrow> pgee \<Rightarrow> jsval \<Rightarrow> jsval \<Rightarrow> result" where
  "listen rt s channel callback =
     (case connection s of
        None \<Rightarrow> callbackOrEmit s callback ''error'' [not_connected]
      | Some c \<Rightarrow>
          let is_obj = (channel \<noteq> JNull \<and> typeof channel = ''object'');
              listener = (if is_obj then get channel ''listener'' else JNull);
              channel1 = (if is_obj then get channel ''channel'' else channel)
          in (case to_string rt channel1 of
                Inl e \<Rightarrow> (s, Throws e)
              | Inr name \<Rightarrow>
                  if indexOf (channels s) name \<noteq> -1 then
                    and_then
                      (if typeof listener = ''function''
                       then EventEmitter_on rt s name listener else (s, Normal))
                      (\<lambda>s1. callbackOrEmit s1 callback ''listen'' [JNull, JStr name])
                  else
                    (s\<lparr>commands := commands s @ [Query c (listen_sql name) []],
                       pending := pending s @ [ListenCb name listener callback]\<rparr>,
                     Normal)))"

definition unlisten_cb :: "runtime \<Rightarrow> pgee \<Rightarrow> string \<Rightarrow> bool \<Rightarrow> jsval \<Rightarrow> jsval \<Rightarrow> result" where
  "unlisten_cb rt s channel removeListeners callback err =
     (if truthy err then callbackOrEmit s callback ''error'' [err]
      else
        let index = indexOf (channels s) channel;
            s1 = (if index \<noteq> -1
                  then s\<lparr>channels := splice1 (channels s) index\<rparr> else s)
        in and_then
             (if removeListeners
              then EventEmitter_removeAllListeners rt s1 (Some channel) else (s1, Normal))
             (\<lambda>s2. callbackOrEmit s2 callback ''unlisten'' [JNull, JStr channel]))"

definition unlisten :: "runtime \<Rightarrow> pgee \<Rightarrow> jsval \<Rightarrow> jsval \<Rightarrow> result" where
  "unlisten rt s channel callback =
     (case connection s of
        None \<Rightarrow> callbackOrEmit s callback ''error'' [not_connected]
      | Some c \<Rightarrow>
          let is_obj = (channel \<noteq> JNull \<and> typeof channel = ''object'');
              removeListeners = (if is_obj then truthy (get channel ''removeListeners'')
                                 else False);
              channel1 = (if is_obj then get channel ''channel'' else channel)
          in (case to_string rt channel1 of
                Inl e \<Rightarrow> (s, Throws e)
              | Inr name \<Rightarrow>
                  if indexOf (channels s) name = -1 then
                    and_then
                      (if removeListeners
                       then EventEmitter_removeAllListeners rt s (Some name) else (s, Normal))
                      (\<lambda>s1. callbackOrEmit s1 callback ''unlisten'' [JNull, JStr name])
                  else
                    (s\<lparr>commands := commands s @ [Query c (unlisten_sql name) []],
                       pending := pending s @ [UnlistenCb name removeListeners callback]\<rparr>,
                     Normal)))"

definition close :: "runtime \<Rightarrow> pgee \<Rightarrow> result" where
  "close rt s =
     (if connection s = None then (s, Normal)
      else
        let s1 = (if typeof (pg_done s) = ''function''
                  then s\<lparr>trace := trace s @ [Called (pg_done s) []]\<rparr> else s)
        in and_then (EventEmitter_removeAllListeners rt s1 None)
             (\<lambda>s2. case tearDown s2 of
                      None \<Rightarrow>
                        (s2, Throws (JError ''this[_tearDownConnection] is not a function''))
                    | Some c \<Rightarrow>
                        (s2\<lparr>hooked := remove1 c (hooked s2), channels := [],
                            connection := None, pg_done := JNull\<rparr>, Normal)))"

subsection \<open>Handlers on the connection\<close>

definition connectionOnError :: "pgee \<Rightarrow> jsval \<Rightarrow> result" where
  "connectionOnError s err = internal_emit s ''error'' err"

record notification =
  channel :: string
  payload :: string

text \<open>
  \<open>try { payload = JSON.parse(payload); } finally { _emit(this, channel, payload); }\<close>: the
  event is fired in either case; when the parse threw and the \<open>finally\<close> block returned, the
  thrown value goes on to the caller of the handler.
\<close>

definition connectionOnNotification :: "runtime \<Rightarrow> pgee \<Rightarrow> notification \<Rightarrow> result" where
  "connectionOnNotification rt s n =
     (case JSON_parse rt (payload n) of
        Inr v \<Rightarrow> internal_emit s (channel n) v
      | Inl e \<Rightarrow> and_then (internal_emit s (channel n) (JStr (payload n))) (\<lambda>s1. (s1, Throws e)))"

subsection \<open>The database answers\<close>

text \<open>
  The callback at position \<open>i\<close> of \<open>pending\<close> is called: a query callback with \<open>(err)\<close>, the
  pool's callback with \<open>(err, connection, done)\<close>. Calling a position that does not exist,
  or is of the other kind, is no step of the system and changes nothing.
\<close>

definition drop_at :: "nat \<Rightarrow> 'a list \<Rightarrow> 'a list" where
  "drop_at i xs = take i xs @ drop (Suc i) xs"

definition query_returns :: "runtime \<Rightarrow> pgee \<Rightarrow> nat \<Rightarrow> jsval \<Rightarrow> result" where
  "query_returns rt s i err =
     (if i < length (pending s) then
        let s1 = s\<lparr>pending := drop_at i (pending s)\<rparr> in
        case pending s ! i of
          ListenCb ch l cb \<Rightarrow> listen_cb rt s1 ch l cb err
        | UnlistenCb ch r cb \<Rightarrow> unlisten_cb rt s1 ch r cb err
        | EmitCb \<Rightarrow> emit_cb s1 err
        | ConnectCb cb \<Rightarrow> (s, Normal)
      else (s, Normal))"

definition pool_returns :: "pgee \<Rightarrow> nat \<Rightarrow> jsval \<Rightarrow> nat \<Rightarrow> jsval \<Rightarrow> result" where
  "pool_returns s i err conn dn =
     (if i < length (pending s) then
        case pending s ! i of
          ConnectCb cb \<Rightarrow> connect_cb (s\<lparr>pending := drop_at i (pending s)\<rparr>) cb err conn dn
        | _ \<Rightarrow> (s, Normal)
      else (s, Normal))"

subsection \<open>Notions used to state the properties\<close>

text \<open>
  The parts of the first argument of \<open>listen\<close> and \<open>unlisten\<close>, as the two methods take it
  apart (lines 54-59 and 97-102): the channel designator before coercion, the listener and
  the \<open>removeListeners\<close> flag.
\<close>

definition chan_of :: "jsval \<Rightarrow> jsval" where
  "chan_of v = (if v \<noteq> JNull \<and> typeof v = ''object'' then get v ''channel'' else v)"

definition listener_of :: "jsval \<Rightarrow> jsval" where
  "listener_of v = (if v \<noteq> JNull \<and> typeof v = ''object'' then get v ''listener'' else JNull)"

definition removes_of :: "jsval \<Rightarrow> bool" where
  "removes_of v =
     (if v \<noteq> JNull \<and> typeof v = ''object'' then truthy (get v ''removeListeners'') else False)"

text \<open>
  A call of \<open>listen\<close> or \<open>unlisten\<close> whose command, if it sent one, is answered with \<open>err\<close>
  before anything else happens. (A call that sent no command left nothing to answer at
  that position.)
\<close>

definition listen_answered :: "runtime \<Rightarrow> pgee \<Rightarrow> jsval \<Rightarrow> jsval \<Rightarrow> jsval \<Rightarrow> result" where
  "listen_answered rt s ch cb err =
     query_returns rt (fst (listen rt s ch cb)) (length (pending s)) err"

definition unlisten_answered :: "runtime \<Rightarrow> pgee \<Rightarrow> jsval \<Rightarrow> jsval \<Rightarrow> jsval \<Rightarrow> result" where
  "unlisten_answered rt s ch cb err =
     query_returns rt (fst (unlisten rt s ch cb)) (length (pending s)) err"

text \<open>
  The result-reporting convention, as the effects that \<open>_callbackOrEmit\<close> adds to the trace
  in state \<open>s\<close>: the callback is called when it is a function, otherwise the event is fired
  and goes to its listeners.
\<close>

definition report :: "pgee \<Rightarrow> jsval \<Rightarrow> string \<Rightarrow> jsval list \<Rightarrow> effect list" where
  "report s callback event args =
     (if typeof callback = ''function'' then [Called callback args]
      else Fired event args # map (\<lambda>h. Called h args) (listeners_of s event))"

text \<open>The effects of firing one event with one message through \<open>_emit\<close>.\<close>

definition fired :: "pgee \<Rightarrow> string \<Rightarrow> jsval \<Rightarrow> effect list" where
  "fired s event message =
     Fired event [message] # map (\<lambda>h. Called h [message]) (listeners_of s event)"

text \<open>The \<open>LISTEN\<close> commands among the commands sent.\<close>

definition is_listen :: "command \<Rightarrow> bool" where
  "is_listen cmd = (case cmd of Query c sql ps \<Rightarrow> take 7 sql = ''LISTEN '' | PoolConnect v \<Rightarrow> False)"

text \<open>
  No listener is registered for the emitter's announcements, so that adding and removing
  listeners sends nothing.
\<close>

definition silent :: "pgee \<Rightarrow> bool" where
  "silent s = (listeners_of s ''newListener'' = [] \<and> listeners_of s ''removeListener'' = [])"

text \<open>
  \<open>extended s s'\<close>: the state \<open>s'\<close> is \<open>s\<close> with another listener table and with commands
  and pending callbacks added at the end. This is all that adding and removing listeners
  does on an instance with a connection.
\<close>

definition extended :: "pgee \<Rightarrow> pgee \<Rightarrow> bool" where
  "extended s s' =
     (\<exists>cs ps ls. s' = s\<lparr>listeners := ls, commands := commands s @ cs,
                          pending := pending s @ ps\<rparr>)"

text \<open>
  The two assignment sites of \<open>_connection\<close> both call \<open>_setupConnection\<close>, so an instance
  that holds a connection also holds the closure that detaches the handlers from it.
\<close>

definition teardown_installed :: "pgee \<Rightarrow> bool" where
  "teardown_installed s = (case connection s of None \<Rightarrow> True | Some c \<Rightarrow> tearDown s = Some c)"

text \<open>
  A runtime for the examples. It agrees with JavaScript on the values the examples use:
  strings, \<open>null\<close>, \<open>undefined\<close>, booleans and symbols (which throw) for the coercion,
  strings without a character that needs escaping and \<open>null\<close> for \<open>JSON.stringify\<close>, and
  the texts \<open>"bar"\<close>, \<open>null\<close> and \<open>not json\<close> (a syntax error) for \<open>JSON.parse\<close>. On other values it is not meant to say
  what JavaScript does; the general statements hold for every runtime.
\<close>

definition example_rt :: runtime where
  \<open>example_rt =
     \<lparr>to_string = (\<lambda>v. case v of
                          JStr s \<Rightarrow> Inr s
                        | JNull \<Rightarrow> Inr ''null''
                        | JUndefined \<Rightarrow> Inr ''undefined''
                        | JBool b \<Rightarrow> Inr (if b then ''true'' else ''false'')
                        | _ \<Rightarrow> Inl (JError ''Cannot convert a Symbol value to a string'')),
      quote_string = (\<lambda>t. ''"'' @ t @ ''"''),
      stringify_other = (\<lambda>v. if v = JNull then Inr (JStr ''null'')
                               else Inl (JError ''Do not know how to serialize a BigInt'')),
      JSON_parse = (\<lambda>t. if t = ''"bar"'' then Inr (JStr ''bar'')
                          else if t = ''null'' then Inr JNull
                          else Inl (JError ''Unexpected token o in JSON at position 1''))\<rparr>\<close>

section \<open>Properties\<close>

subsection \<open>Auxiliary facts\<close>

lemmas model_defs =
  PgEe_def setupConnection_def listen_def unlisten_def emit_def connect_def close_def
  listen_cb_def unlisten_cb_def emit_cb_def connect_cb_def query_returns_def
  listen_answered_def unlisten_answered_def drop_at_def callbackOrEmit_def
  internal_emit_def EventEmitter_emit_def EventEmitter_on_def
  EventEmitter_removeAllListeners_def removeAllListeners_of_def remove_last_def
  own_keys_def is_index_def index_value_def and_then_def JSON_stringify_def
  listeners_of_def unhandled_def not_connected_def
  chan_of_def listener_of_def removes_of_def report_def fired_def example_rt_def
  splice1_def listen_sql_def unlisten_sql_def notify_sql_def is_listen_def Let_def

lemma indexOf_ge: "indexOf xs c \<ge> -1"
  by (induction xs) (auto simp: Let_def)

lemma indexOf_absent: "indexOf xs c = -1 \<longleftrightarrow> c \<notin> set xs"
proof (induction xs)
  case Nil show ?case by simp
next
  case (Cons x xs)
  have "indexOf xs c \<ge> -1" by (rule indexOf_ge)
  with Cons show ?case by (auto simp: Let_def)
qed

lemma splice1_indexOf: "c \<in> set xs \<Longrightarrow> splice1 xs (indexOf xs c) = remove1 c xs"
proof (induction xs)
  case Nil then show ?case by simp
next
  case (Cons x xs)
  show ?case
  proof (cases "x = c")
    case True then show ?thesis by (simp add: splice1_def)
  next
    case False
    with Cons.prems have in_xs: "c \<in> set xs" by simp
    then have ne: "indexOf xs c \<noteq> -1" by (simp add: indexOf_absent)
    have ge: "indexOf xs c \<ge> -1" by (rule indexOf_ge)
    from ne ge have nn: "indexOf xs c \<ge> 0" by linarith
    then have "nat (indexOf xs c + 1) = Suc (nat (indexOf xs c))" by simp
    with False ne Cons.IH[OF in_xs] show ?thesis
      by (simp add: splice1_def Let_def)
  qed
qed

lemma count_list_remove1: "count_list (remove1 x xs) x = count_list xs x - 1"
  by (induction xs) auto

lemma count_one_remove1:
  assumes "count_list xs x = 1"
  shows "x \<notin> set (remove1 x xs)"
proof -
  have "count_list (remove1 x xs) x = 0"
    using assms by (simp add: count_list_remove1)
  then show ?thesis using count_list_0_iff[of "remove1 x xs" x] by blast
qed

lemma callbackOrEmit_eq:
  "callbackOrEmit s cb ev args =
     (s\<lparr>trace := trace s @ report s cb ev args\<rparr>,
      if typeof cb \<noteq> ''function'' \<and> ev = ''error'' \<and> listeners_of s ''error'' = []
      then unhandled args else Normal)"
  by (auto simp: callbackOrEmit_def EventEmitter_emit_def report_def Let_def listeners_of_def)

lemma internal_emit_eq:
  "internal_emit s ev m =
     (s\<lparr>trace := trace s @ fired s ev m\<rparr>,
      if ev = ''error'' \<and> listeners_of s ''error'' = [] then unhandled [m] else Normal)"
  by (auto simp: internal_emit_def EventEmitter_emit_def fired_def Let_def listeners_of_def)

lemma report_trace [simp]: "report (s\<lparr>trace := t\<rparr>) cb ev args = report s cb ev args"
  by (simp add: report_def listeners_of_def)

lemma report_listeners: "listeners s' = listeners s \<Longrightarrow> report s' cb ev args = report s cb ev args"
  by (simp add: report_def listeners_of_def)

lemma and_then_Normal [simp]: "and_then (s, Normal) f = f s"
  by (simp add: and_then_def)

lemma not_listen [simp]:
  "\<not> is_listen (Query c notify_sql ps)" "\<not> is_listen (Query c (unlisten_sql n) ps)"
  "is_listen (Query c (listen_sql n) ps)"
  by (simp_all add: is_listen_def notify_sql_def unlisten_sql_def listen_sql_def)

text \<open>
  Adding and removing listeners on an instance with a connection: the announcement, if
  there is one, is a \<open>pg_notify\<close>; nothing throws, and nothing but the listener table, the
  commands and the pending callbacks changes. Without a listener for the announcement the
  table alone changes.
\<close>

lemma emit_string_connected:
  assumes "connection s = Some c" "meta \<noteq> ''error''"
  shows "emit rt s (JStr meta) (JStr ev) =
           (s\<lparr>commands := commands s @ [Query c notify_sql [JStr meta, JStr (quote_string rt ev)]],
              pending := pending s @ [EmitCb]\<rparr>, Normal)"
  using assms by (simp add: emit_def JSON_stringify_def)

lemma on_silent:
  "listeners_of s ''newListener'' = [] \<Longrightarrow>
     EventEmitter_on rt s ev l = (s\<lparr>listeners := listeners s @ [(ev, l)]\<rparr>, Normal)"
  by (simp add: EventEmitter_on_def)

lemma on_connected:
  assumes "connection s = Some c"
  shows "EventEmitter_on rt s ev l =
           (s\<lparr>listeners := listeners s @ [(ev, l)],
              commands := commands s @
                (if listeners_of s ''newListener'' = [] then []
                 else [Query c notify_sql [JStr ''newListener'', JStr (quote_string rt ev)]]),
              pending := pending s @
                (if listeners_of s ''newListener'' = [] then [] else [EmitCb])\<rparr>, Normal)"
  using assms by (simp add: EventEmitter_on_def emit_string_connected)

lemma extended_refl: "extended s s"
  unfolding extended_def
  by (rule exI[of _ "[]"], rule exI[of _ "[]"], rule exI[of _ "listeners s"]) simp

lemma extended_trans:
  assumes "extended s t" "extended t u"
  shows "extended s u"
proof -
  from assms(1) obtain cs ps ls where
    t: "t = s\<lparr>listeners := ls, commands := commands s @ cs, pending := pending s @ ps\<rparr>"
    unfolding extended_def by blast
  from assms(2) obtain cs' ps' ls' where
    u: "u = t\<lparr>listeners := ls', commands := commands t @ cs', pending := pending t @ ps'\<rparr>"
    unfolding extended_def by blast
  have "u = s\<lparr>listeners := ls', commands := commands s @ (cs @ cs'),
               pending := pending s @ (ps @ ps')\<rparr>"
    unfolding u t by simp
  then show ?thesis unfolding extended_def by blast
qed

lemma extended_listeners: "extended s (s\<lparr>listeners := ls\<rparr>)"
  unfolding extended_def
  by (rule exI[of _ "[]"], rule exI[of _ "[]"], rule exI[of _ ls]) simp

lemma extended_fields:
  assumes "extended s s'"
  shows "channels s' = channels s" "connection s' = connection s" "trace s' = trace s"
    "tearDown s' = tearDown s" "hooked s' = hooked s" "pg_done s' = pg_done s"
    "\<exists>ps. pending s' = pending s @ ps" "\<exists>cs. commands s' = commands s @ cs"
  using assms unfolding extended_def by auto

lemma emit_string_extended:
  assumes "connection s = Some c" "meta \<noteq> ''error''"
  shows "\<exists>s'. emit rt s (JStr meta) (JStr ev) = (s', Normal) \<and> extended s s'"
proof -
  let ?s' = "s\<lparr>commands := commands s @ [Query c notify_sql [JStr meta, JStr (quote_string rt ev)]],
               pending := pending s @ [EmitCb]\<rparr>"
  have "?s' = s\<lparr>listeners := listeners s,
                 commands := commands s @ [Query c notify_sql [JStr meta, JStr (quote_string rt ev)]],
                 pending := pending s @ [EmitCb]\<rparr>" by simp
  then have "extended s ?s'" unfolding extended_def by blast
  with emit_string_connected[OF assms] show ?thesis by blast
qed

lemma remove_each_connected:
  "connection s = Some c \<Longrightarrow> \<exists>s'. remove_each rt s ev n = (s', Normal) \<and> extended s s'"
proof (induction n arbitrary: s)
  case 0
  then show ?case by (simp add: extended_refl)
next
  case (Suc n)
  let ?s1 = "s\<lparr>listeners := remove_last ev (listeners s)\<rparr>"
  have c1: "connection ?s1 = Some c" using Suc.prems by simp
  have e1: "extended s ?s1" by (rule extended_listeners)
  obtain s2 where s2:
    "(if listeners_of ?s1 ''removeListener'' \<noteq> []
      then emit rt ?s1 (JStr ''removeListener'') (JStr ev) else (?s1, Normal)) = (s2, Normal)"
    and e2: "extended ?s1 s2"
  proof (cases "listeners_of ?s1 ''removeListener'' \<noteq> []")
    case True
    from emit_string_extended[OF c1, of "''removeListener''" rt ev]
    obtain s' where "emit rt ?s1 (JStr ''removeListener'') (JStr ev) = (s', Normal)"
      and "extended ?s1 s'" by auto
    with True that show ?thesis by simp
  next
    case False
    with that[of ?s1] show ?thesis by (simp add: extended_refl)
  qed
  have c2: "connection s2 = Some c" using extended_fields(2)[OF e2] c1 by simp
  from Suc.IH[OF c2] obtain s' where
    r: "remove_each rt s2 ev n = (s', Normal)" and e3: "extended s2 s'" by blast
  have "remove_each rt s ev (Suc n) = (s', Normal)"
    using s2 r by (simp add: Let_def)
  moreover have "extended s s'"
    using extended_trans[OF extended_trans[OF e1 e2] e3] .
  ultimately show ?case by blast
qed

lemma removeAllListeners_of_connected:
  assumes "connection s = Some c"
  shows "\<exists>s'. removeAllListeners_of rt s ev = (s', Normal) \<and> extended s s'"
proof (cases "listeners_of s ''removeListener'' = []")
  case True
  then show ?thesis by (simp add: removeAllListeners_of_def extended_listeners)
next
  case False
  with remove_each_connected[OF assms] show ?thesis
    by (simp add: removeAllListeners_of_def)
qed

lemma remove_keys_connected:
  "connection s = Some c \<Longrightarrow> \<exists>s'. remove_keys rt s ks = (s', Normal) \<and> extended s s'"
proof (induction ks arbitrary: s)
  case Nil
  then show ?case by (simp add: extended_refl)
next
  case (Cons k ks)
  from removeAllListeners_of_connected[OF Cons.prems] obtain s1 where
    r1: "removeAllListeners_of rt s k = (s1, Normal)" and e1: "extended s s1" by blast
  have c1: "connection s1 = Some c" using extended_fields(2)[OF e1] Cons.prems by simp
  from Cons.IH[OF c1] obtain s' where
    r2: "remove_keys rt s1 ks = (s', Normal)" and e2: "extended s1 s'" by blast
  have "remove_keys rt s (k # ks) = (s', Normal)" using r1 r2 by simp
  with extended_trans[OF e1 e2] show ?case by blast
qed

lemma removeAllListeners_connected:
  assumes "connection s = Some c"
  shows "\<exists>s'. EventEmitter_removeAllListeners rt s evo = (s', Normal) \<and> extended s s'"
proof (cases evo)
  case (Some e)
  with removeAllListeners_of_connected[OF assms] show ?thesis
    by (simp add: EventEmitter_removeAllListeners_def)
next
  case None
  show ?thesis
  proof (cases "listeners_of s ''removeListener'' = []")
    case True
    with None show ?thesis
      by (simp add: EventEmitter_removeAllListeners_def extended_listeners)
  next
    case False
    let ?ks = "filter (\<lambda>k. k \<noteq> ''removeListener'') (own_keys (listeners s))"
    from remove_keys_connected[OF assms] obtain s1 where
      r1: "remove_keys rt s ?ks = (s1, Normal)" and e1: "extended s s1" by blast
    have c1: "connection s1 = Some c" using extended_fields(2)[OF e1] assms by simp
    from removeAllListeners_of_connected[OF c1] obtain s2 where
      r2: "removeAllListeners_of rt s1 ''removeListener'' = (s2, Normal)"
      and e2: "extended s1 s2" by blast
    have e3: "extended s2 (s2\<lparr>listeners := []\<rparr>)" by (rule extended_listeners)
    have "EventEmitter_removeAllListeners rt s evo = (s2\<lparr>listeners := []\<rparr>, Normal)"
      using None False r1 r2 by (simp add: EventEmitter_removeAllListeners_def)
    with extended_trans[OF extended_trans[OF e1 e2] e3] show ?thesis by blast
  qed
qed

lemma removeAllListeners_silent:
  "listeners_of s ''removeListener'' = [] \<Longrightarrow>
     EventEmitter_removeAllListeners rt s (Some ev)
       = (s\<lparr>listeners := filter (\<lambda>p. fst p \<noteq> ev) (listeners s)\<rparr>, Normal)"
  by (simp add: EventEmitter_removeAllListeners_def removeAllListeners_of_def)

text \<open>
  The two branches of \<open>listen\<close> and of \<open>unlisten\<close> on an instance with a connection, and the
  callback that an answer reaches.
\<close>

lemma listen_issue:
  assumes "connection s = Some c" "to_string rt (chan_of ch) = Inr name"
    "name \<notin> set (channels s)"
  shows "listen rt s ch cb =
     (s\<lparr>commands := commands s @ [Query c (listen_sql name) []],
        pending := pending s @ [ListenCb name (listener_of ch) cb]\<rparr>, Normal)"
  using assms by (simp add: listen_def Let_def chan_of_def listener_of_def indexOf_absent)

lemma listen_present:
  assumes "connection s = Some c" "to_string rt (chan_of ch) = Inr name"
    "name \<in> set (channels s)"
  shows "listen rt s ch cb =
     and_then (if typeof (listener_of ch) = ''function''
               then EventEmitter_on rt s name (listener_of ch) else (s, Normal))
       (\<lambda>s1. callbackOrEmit s1 cb ''listen'' [JNull, JStr name])"
  using assms by (simp add: listen_def Let_def chan_of_def listener_of_def indexOf_absent)

lemma unlisten_issue:
  assumes "connection s = Some c" "to_string rt (chan_of ch) = Inr name"
    "name \<in> set (channels s)"
  shows "unlisten rt s ch cb =
     (s\<lparr>commands := commands s @ [Query c (unlisten_sql name) []],
        pending := pending s @ [UnlistenCb name (removes_of ch) cb]\<rparr>, Normal)"
  using assms by (simp add: unlisten_def Let_def chan_of_def removes_of_def indexOf_absent)

lemma unlisten_absent:
  assumes "connection s = Some c" "to_string rt (chan_of ch) = Inr name"
    "name \<notin> set (channels s)"
  shows "unlisten rt s ch cb =
     and_then (if removes_of ch
               then EventEmitter_removeAllListeners rt s (Some name) else (s, Normal))
       (\<lambda>s1. callbackOrEmit s1 cb ''unlisten'' [JNull, JStr name])"
  using assms by (simp add: unlisten_def Let_def chan_of_def removes_of_def indexOf_absent)

lemma query_returns_at:
  assumes "pending s = ps @ k # qs"
  shows "query_returns rt s (length ps) err =
     (case k of
        ListenCb ch l cb \<Rightarrow> listen_cb rt (s\<lparr>pending := ps @ qs\<rparr>) ch l cb err
      | UnlistenCb ch r cb \<Rightarrow> unlisten_cb rt (s\<lparr>pending := ps @ qs\<rparr>) ch r cb err
      | EmitCb \<Rightarrow> emit_cb (s\<lparr>pending := ps @ qs\<rparr>) err
      | ConnectCb cb \<Rightarrow> (s, Normal))"
  using assms by (simp add: query_returns_def drop_at_def Let_def)

lemma query_returns_last:
  "pending s = ps @ [k] \<Longrightarrow> query_returns rt s (length ps) err =
     (case k of
        ListenCb ch l cb \<Rightarrow> listen_cb rt (s\<lparr>pending := ps\<rparr>) ch l cb err
      | UnlistenCb ch r cb \<Rightarrow> unlisten_cb rt (s\<lparr>pending := ps\<rparr>) ch r cb err
      | EmitCb \<Rightarrow> emit_cb (s\<lparr>pending := ps\<rparr>) err
      | ConnectCb cb \<Rightarrow> (s, Normal))"
  by (simp add: query_returns_def drop_at_def Let_def)

text \<open>
  The two callbacks after an answer without error, on an instance with a connection. What
  \<open>on\<close> adds is known exactly; of \<open>removeAllListeners\<close> the frame is enough, and its exact
  result when it is not called or announces nothing.
\<close>

lemma listen_cb_ok:
  assumes "connection s = Some c" "\<not> truthy err"
  shows "listen_cb rt s name l cb err =
     (let s2 = s\<lparr>channels := (if name \<in> set (channels s) then channels s
                                else channels s @ [name]),
                  listeners := (if typeof l = ''function'' then listeners s @ [(name, l)]
                                else listeners s),
                  commands := commands s @
                    (if typeof l = ''function'' \<and> listeners_of s ''newListener'' \<noteq> []
                     then [Query c notify_sql [JStr ''newListener'', JStr (quote_string rt name)]]
                     else []),
                  pending := pending s @
                    (if typeof l = ''function'' \<and> listeners_of s ''newListener'' \<noteq> []
                     then [EmitCb] else [])\<rparr>
      in (s2\<lparr>trace := trace s @ report s2 cb ''listen'' [JNull, JStr name]\<rparr>, Normal))"
proof (cases "name \<in> set (channels s)")
  case True
  show ?thesis
    using assms True on_connected[OF assms(1), of rt name l]
    by (simp add: listen_cb_def Let_def indexOf_absent callbackOrEmit_eq
          report_def listeners_of_def)
next
  case False
  let ?s1 = "s\<lparr>channels := channels s @ [name]\<rparr>"
  have c1: "connection ?s1 = Some c" using assms by simp
  show ?thesis
    using assms False on_connected[OF c1, of rt name l]
    by (simp add: listen_cb_def Let_def indexOf_absent callbackOrEmit_eq
          report_def listeners_of_def)
qed

lemma unlisten_cb_ok:
  assumes "connection s = Some c" "\<not> truthy err"
  shows "\<exists>s'. unlisten_cb rt s name r cb err
               = (s'\<lparr>trace := trace s @ report s' cb ''unlisten'' [JNull, JStr name]\<rparr>, Normal)
            \<and> extended (s\<lparr>channels := remove1 name (channels s)\<rparr>) s'
            \<and> (\<not> r \<longrightarrow> s' = s\<lparr>channels := remove1 name (channels s)\<rparr>)
            \<and> (r \<and> listeners_of s ''removeListener'' = [] \<longrightarrow>
                 s' = s\<lparr>channels := remove1 name (channels s),
                        listeners := filter (\<lambda>p. fst p \<noteq> name) (listeners s)\<rparr>)"
proof -
  let ?s1 = "s\<lparr>channels := remove1 name (channels s)\<rparr>"
  have s1: "(let index = indexOf (channels s) name
             in if index \<noteq> -1 then s\<lparr>channels := splice1 (channels s) index\<rparr> else s) = ?s1"
    by (cases "name \<in> set (channels s)")
       (simp_all add: Let_def indexOf_absent splice1_indexOf remove1_idem)
  have c1: "connection ?s1 = Some c" using assms by simp
  have u: "unlisten_cb rt s name r cb err =
             and_then (if r then EventEmitter_removeAllListeners rt ?s1 (Some name)
                       else (?s1, Normal))
               (\<lambda>s2. callbackOrEmit s2 cb ''unlisten'' [JNull, JStr name])"
    using assms(2) s1 by (simp add: unlisten_cb_def Let_def)
  show ?thesis
  proof (cases r)
    case False
    have "unlisten_cb rt s name r cb err
            = (?s1\<lparr>trace := trace s @ report ?s1 cb ''unlisten'' [JNull, JStr name]\<rparr>, Normal)"
      using False u by (simp add: callbackOrEmit_eq)
    with False extended_refl[of ?s1] show ?thesis by blast
  next
    case True
    from removeAllListeners_connected[OF c1, of rt "Some name"] obtain s' where
      r1: "EventEmitter_removeAllListeners rt ?s1 (Some name) = (s', Normal)"
      and e1: "extended ?s1 s'" by blast
    have tr: "trace s' = trace s" using extended_fields(3)[OF e1] by simp
    have res: "unlisten_cb rt s name r cb err
            = (s'\<lparr>trace := trace s @ report s' cb ''unlisten'' [JNull, JStr name]\<rparr>, Normal)"
      using True u r1 tr by (simp add: callbackOrEmit_eq)
    have sil: "listeners_of s ''removeListener'' = [] \<longrightarrow>
                 s' = s\<lparr>channels := remove1 name (channels s),
                        listeners := filter (\<lambda>p. fst p \<noteq> name) (listeners s)\<rparr>"
    proof
      assume q: "listeners_of s ''removeListener'' = []"
      then have "listeners_of ?s1 ''removeListener'' = []" by (simp add: listeners_of_def)
      from removeAllListeners_silent[OF this, of rt name] r1 show
        "s' = s\<lparr>channels := remove1 name (channels s),
               listeners := filter (\<lambda>p. fst p \<noteq> name) (listeners s)\<rparr>" by simp
    qed
    from res e1 sil True show ?thesis by blast
  qed
qed

lemma listen_answered_absent:
  assumes "connection s = Some c" "to_string rt (chan_of ch) = Inr name"
    "name \<notin> set (channels s)"
  shows "listen_answered rt s ch cb err =
           listen_cb rt (s\<lparr>commands := commands s @ [Query c (listen_sql name) []]\<rparr>)
             name (listener_of ch) cb err"
  using assms by (simp add: listen_answered_def listen_issue query_returns_last)

lemma unlisten_answered_present:
  assumes "connection s = Some c" "to_string rt (chan_of ch) = Inr name"
    "name \<in> set (channels s)"
  shows "unlisten_answered rt s ch cb err =
           unlisten_cb rt (s\<lparr>commands := commands s @ [Query c (unlisten_sql name) []]\<rparr>)
             name (removes_of ch) cb err"
  using assms by (simp add: unlisten_answered_def unlisten_issue query_returns_last)

lemma listen_step:
  assumes conn: "connection s = Some c"
    and name: "to_string rt (chan_of ch) = Inr name"
    and absent: "name \<notin> set (channels s)"
    and ok: "\<not> truthy err"
    and t: "t = fst (listen_answered rt s ch cb err)"
  shows "connection t = Some c" "channels t = channels s @ [name]"
    "listeners t = (if typeof (listener_of ch) = ''function''
                    then listeners s @ [(name, listener_of ch)] else listeners s)"
    "typeof (listener_of ch) \<noteq> ''function'' \<or> listeners_of s ''newListener'' = []
       \<Longrightarrow> commands t = commands s @ [Query c (listen_sql name) []]"
proof -
  let ?s1 = "s\<lparr>commands := commands s @ [Query c (listen_sql name) []]\<rparr>"
  have c1: "connection ?s1 = Some c" using conn by simp
  have e: "t = fst (listen_cb rt ?s1 name (listener_of ch) cb err)"
    using t listen_answered_absent[OF conn name absent] by simp
  show "connection t = Some c" "channels t = channels s @ [name]"
    "listeners t = (if typeof (listener_of ch) = ''function''
                    then listeners s @ [(name, listener_of ch)] else listeners s)"
    using conn absent unfolding e listen_cb_ok[OF c1 ok] by (simp_all add: Let_def)
  show "commands t = commands s @ [Query c (listen_sql name) []]"
    if "typeof (listener_of ch) \<noteq> ''function'' \<or> listeners_of s ''newListener'' = []"
    using that unfolding e listen_cb_ok[OF c1 ok]
    by (auto simp: Let_def listeners_of_def)
qed

lemma unlisten_step:
  assumes conn: "connection s = Some c"
    and name: "to_string rt (chan_of ch) = Inr name"
    and present: "name \<in> set (channels s)"
    and ok: "\<not> truthy err"
    and t: "t = fst (unlisten_answered rt s ch cb err)"
  shows "connection t = Some c" "channels t = remove1 name (channels s)"
    "\<not> removes_of ch \<or> listeners_of s ''removeListener'' = []
       \<Longrightarrow> commands t = commands s @ [Query c (unlisten_sql name) []]
         \<and> listeners t = (if removes_of ch then filter (\<lambda>p. fst p \<noteq> name) (listeners s)
                          else listeners s)"
proof -
  let ?s1 = "s\<lparr>commands := commands s @ [Query c (unlisten_sql name) []]\<rparr>"
  have c1: "connection ?s1 = Some c" using conn by simp
  have e: "t = fst (unlisten_cb rt ?s1 name (removes_of ch) cb err)"
    using t unlisten_answered_present[OF conn name present] by simp
  from unlisten_cb_ok[OF c1 ok, of rt name "removes_of ch" cb] obtain s' where
    A: "unlisten_cb rt ?s1 name (removes_of ch) cb err
          = (s'\<lparr>trace := trace ?s1 @ report s' cb ''unlisten'' [JNull, JStr name]\<rparr>, Normal)"
    and ext: "extended (?s1\<lparr>channels := remove1 name (channels ?s1)\<rparr>) s'"
    and nr: "\<not> removes_of ch \<longrightarrow> s' = ?s1\<lparr>channels := remove1 name (channels ?s1)\<rparr>"
    and sr: "removes_of ch \<and> listeners_of ?s1 ''removeListener'' = [] \<longrightarrow>
               s' = ?s1\<lparr>channels := remove1 name (channels ?s1),
                        listeners := filter (\<lambda>p. fst p \<noteq> name) (listeners ?s1)\<rparr>"
    by blast
  note F = extended_fields[OF ext]
  show "connection t = Some c" "channels t = remove1 name (channels s)"
    using conn F(1,2) unfolding e A by simp_all
  show "commands t = commands s @ [Query c (unlisten_sql name) []]
         \<and> listeners t = (if removes_of ch then filter (\<lambda>p. fst p \<noteq> name) (listeners s)
                          else listeners s)"
    if h: "\<not> removes_of ch \<or> listeners_of s ''removeListener'' = []"
  proof (cases "removes_of ch")
    case False
    with nr show ?thesis unfolding e A by simp
  next
    case True
    with h have "listeners_of ?s1 ''removeListener'' = []" by (simp add: listeners_of_def)
    with sr True show ?thesis unfolding e A by simp
  qed
qed

text \<open>
  The notification handler, for every runtime: the event is fired with the parsed payload
  when the payload parses, and with the raw payload when it does not; in the second case
  the value thrown by \<open>JSON.parse\<close> leaves the handler, unless the event was an \<open>'error'\<close>
  event without listener, whose own error takes its place.
\<close>

lemma notification_parsed:
  "JSON_parse rt (payload n) = Inr v \<Longrightarrow>
     fst (connectionOnNotification rt s n) = s\<lparr>trace := trace s @ fired s (channel n) v\<rparr>"
  by (simp add: connectionOnNotification_def internal_emit_eq)

lemma notification_not_parsed:
  assumes "JSON_parse rt (payload n) = Inl e"
  shows "fst (connectionOnNotification rt s n)
           = s\<lparr>trace := trace s @ fired s (channel n) (JStr (payload n))\<rparr>"
    and "channel n \<noteq> ''error'' \<or> listeners_of s ''error'' \<noteq> [] \<Longrightarrow>
           snd (connectionOnNotification rt s n) = Throws e"
  using assms
  by (auto simp: connectionOnNotification_def internal_emit_eq and_then_def unhandled_def)

text \<open>
  Two invariants of the instance: it holds the teardown closure whenever it holds a
  connection, and nothing but the two callbacks' own insert and removal touches the
  registry, which they keep free of duplicates.
\<close>

lemma teardown_installed_PgEe: "teardown_installed (PgEe arg)"
  by (cases arg) (simp_all add: PgEe_def setupConnection_def teardown_installed_def)

lemma teardown_installed_connect_cb:
  "teardown_installed s \<Longrightarrow> teardown_installed (fst (connect_cb s cb err conn dn))"
  by (cases "truthy err")
     (auto simp: connect_cb_def callbackOrEmit_eq setupConnection_def teardown_installed_def
           split: option.splits)

lemma and_then_channels:
  assumes "\<And>t. channels (fst (f t)) = channels t"
  shows "channels (fst (and_then r f)) = channels (fst r)"
  by (cases r; cases "snd r"; simp add: and_then_def assms)

lemma emit_channels: "channels (fst (emit rt s ev m)) = channels s"
  by (simp add: emit_def internal_emit_eq split: option.splits sum.splits)

lemma on_channels: "channels (fst (EventEmitter_on rt s ev l)) = channels s"
  by (simp add: EventEmitter_on_def and_then_channels emit_channels)

lemma remove_each_channels: "channels (fst (remove_each rt s ev n)) = channels s"
proof (induction n arbitrary: s)
  case 0
  show ?case by simp
next
  case (Suc n)
  show ?case
    by (simp add: Let_def and_then_channels[where f = "\<lambda>t. remove_each rt t ev n"]
          Suc.IH emit_channels)
qed

lemma removeAllListeners_of_channels:
  "channels (fst (removeAllListeners_of rt s ev)) = channels s"
  by (simp add: removeAllListeners_of_def remove_each_channels)

lemma remove_keys_channels: "channels (fst (remove_keys rt s ks)) = channels s"
proof (induction ks arbitrary: s)
  case Nil
  show ?case by simp
next
  case (Cons k ks)
  show ?case
    by (simp add: and_then_channels[where f = "\<lambda>t. remove_keys rt t ks"] Cons.IH
          removeAllListeners_of_channels)
qed

lemma removeAllListeners_channels:
  "channels (fst (EventEmitter_removeAllListeners rt s evo)) = channels s"
proof (cases evo)
  case (Some e)
  then show ?thesis
    by (simp add: EventEmitter_removeAllListeners_def removeAllListeners_of_channels)
next
  case None
  have inner: "channels (fst (and_then (removeAllListeners_of rt t ''removeListener'')
                  (\<lambda>s2. (s2\<lparr>listeners := []\<rparr>, Normal)))) = channels t" for t
    by (simp add: and_then_channels removeAllListeners_of_channels)
  show ?thesis
    using None
    by (simp add: EventEmitter_removeAllListeners_def remove_keys_channels
          and_then_channels[where f = "\<lambda>s1. and_then (removeAllListeners_of rt s1 ''removeListener'')
                  (\<lambda>s2. (s2\<lparr>listeners := []\<rparr>, Normal))"] inner)
qed

lemma callbackOrEmit_channels: "channels (fst (callbackOrEmit s cb ev args)) = channels s"
  by (simp add: callbackOrEmit_eq)

lemma distinct_listen_cb:
  "distinct (channels s) \<Longrightarrow> distinct (channels (fst (listen_cb rt s ch l cb err)))"
  by (simp add: listen_cb_def Let_def callbackOrEmit_channels on_channels indexOf_absent
        and_then_channels[where f = "\<lambda>s2. callbackOrEmit s2 cb ''listen'' [JNull, JStr ch]"])

lemma distinct_unlisten_cb:
  "distinct (channels s) \<Longrightarrow> distinct (channels (fst (unlisten_cb rt s ch r cb err)))"
  by (cases "ch \<in> set (channels s)")
     (simp_all add: unlisten_cb_def Let_def callbackOrEmit_channels
        removeAllListeners_channels indexOf_absent splice1_indexOf
        and_then_channels[where f = "\<lambda>s2. callbackOrEmit s2 cb ''unlisten'' [JNull, JStr ch]"])

text \<open>
  The announcements at work: with a \<open>'newListener'\<close> listener registered, attaching the
  listener of \<open>listen({channel: 'foo', listener})\<close> sends \<open>pg_notify('newListener', '"foo"')\<close>;
  with a \<open>'removeListener'\<close> listener, \<open>unlisten({channel: 'foo', removeListeners: true})\<close>
  and \<open>close()\<close> send \<open>pg_notify('removeListener', ...)\<close> for each listener they remove,
  \<open>close\<close> key by key in the order of the own keys.
\<close>

lemma on_announces_through_emit:
  "commands (fst (listen_answered example_rt
       (fst (EventEmitter_on example_rt (PgEe (Client 0)) ''newListener'' (JFn 8)))
       (JObj [(''channel'', JStr ''foo''), (''listener'', JFn 7)]) (JFn 1) JNull))
     = [Query 0 (listen_sql ''foo'') [],
        Query 0 notify_sql [JStr ''newListener'', JStr ''\"foo\"'']]"
  by (simp add: model_defs)

lemma removeAllListeners_announces_through_emit:
  "commands (fst (unlisten example_rt
       (fst (EventEmitter_on example_rt
          (fst (EventEmitter_on example_rt (PgEe (Client 0)) ''removeListener'' (JFn 8)))
          ''foo'' (JFn 7)))
       (JObj [(''channel'', JStr ''foo''), (''removeListeners'', JBool True)]) (JFn 1)))
     = [Query 0 notify_sql [JStr ''removeListener'', JStr ''\"foo\"'']]"
  by (simp add: model_defs)

lemma close_announces_through_emit:
  "commands (fst (close example_rt
       (fst (EventEmitter_on example_rt
          (fst (EventEmitter_on example_rt
             (fst (EventEmitter_on example_rt (PgEe (Client 0)) ''foo'' (JFn 7)))
             ''removeListener'' (JFn 8)))
          ''7'' (JFn 9)))))
     = [Query 0 notify_sql [JStr ''removeListener'', JStr ''\"7\"''],
        Query 0 notify_sql [JStr ''removeListener'', JStr ''\"foo\"'']]
   \<and> listeners (fst (close example_rt
       (fst (EventEmitter_on example_rt
          (fst (EventEmitter_on example_rt
             (fst (EventEmitter_on example_rt (PgEe (Client 0)) ''foo'' (JFn 7)))
             ''removeListener'' (JFn 8)))
          ''7'' (JFn 9))))) = []"
  by (simp add: model_defs)

subsection \<open>C1: subscribing twice\<close>

text \<open>
  C1. On an instance with a live connection, \<open>listen\<close> is called for a channel that is not
  yet in the registry, its \<open>LISTEN\<close> command is answered without error, and only then
  \<open>listen\<close> is called again for the same channel name (\<open>ch\<close> and \<open>ch'\<close> coerce to the same
  string \<open>name\<close>). Then the \<open>LISTEN\<close> command was sent exactly once in total, for \<open>name\<close>; the
  registry holds \<open>name\<close> once; the second call attaches its listener if it is a function,
  returns, and reports success \<open>(null, name)\<close> through its callback or the \<open>'listen'\<close> event.
  When no listener is registered for the emitter's announcements, the \<open>LISTEN\<close> is the only
  command sent.
\<close>

theorem listen_twice_single_command:
  assumes conn: "connection s = Some c"
    and name1: "to_string rt (chan_of ch) = Inr name"
    and name2: "to_string rt (chan_of ch') = Inr name"
    and absent: "name \<notin> set (channels s)"
    and ok: "\<not> truthy err"
    and s2: "s2 = fst (listen_answered rt s ch cb err)"
    and s3: "s3 = fst (listen rt s2 ch' cb')"
  shows "filter is_listen (commands s3)
           = filter is_listen (commands s) @ [Query c (listen_sql name) []]
       \<and> channels s3 = channels s @ [name]
       \<and> count_list (channels s3) name = 1
       \<and> (typeof (listener_of ch') = ''function''
            \<longrightarrow> listeners s3 = listeners s2 @ [(name, listener_of ch')])
       \<and> snd (listen rt s2 ch' cb') = Normal
       \<and> trace s3 = trace s2 @ report s3 cb' ''listen'' [JNull, JStr name]
       \<and> (silent s2 \<longrightarrow> commands s3 = commands s @ [Query c (listen_sql name) []])"
proof -
  let ?s1 = "s\<lparr>commands := commands s @ [Query c (listen_sql name) []]\<rparr>"
  have c1: "connection ?s1 = Some c" using conn by simp
  have e2: "s2 = fst (listen_cb rt ?s1 name (listener_of ch) cb err)"
    using s2 listen_answered_absent[OF conn name1 absent] by simp
  have f2: "connection s2 = Some c" "channels s2 = channels s @ [name]"
    "filter is_listen (commands s2)
       = filter is_listen (commands s) @ [Query c (listen_sql name) []]"
    using e2 absent conn by (simp_all add: listen_cb_ok[OF c1 ok] Let_def)
  have in2: "name \<in> set (channels s2)" using f2 by simp
  have cnt: "count_list (channels s @ [name]) name = 1"
    using absent by (simp add: count_list_0_iff)
  have sil: "silent s2 \<Longrightarrow> commands s2 = commands s @ [Query c (listen_sql name) []]"
    using e2 by (auto simp: listen_cb_ok[OF c1 ok] Let_def silent_def listeners_of_def
                      split: if_splits)
  have l3: "listen rt s2 ch' cb' =
     (let t = s2\<lparr>listeners := (if typeof (listener_of ch') = ''function''
                                 then listeners s2 @ [(name, listener_of ch')]
                                 else listeners s2),
                   commands := commands s2 @
                     (if typeof (listener_of ch') = ''function''
                         \<and> listeners_of s2 ''newListener'' \<noteq> []
                      then [Query c notify_sql [JStr ''newListener'', JStr (quote_string rt name)]]
                      else []),
                   pending := pending s2 @
                     (if typeof (listener_of ch') = ''function''
                         \<and> listeners_of s2 ''newListener'' \<noteq> []
                      then [EmitCb] else [])\<rparr>
      in (t\<lparr>trace := trace s2 @ report t cb' ''listen'' [JNull, JStr name]\<rparr>, Normal))"
    by (cases "typeof (listener_of ch') = ''function''")
       (simp_all add: listen_present[OF f2(1) name2 in2] on_connected[OF f2(1)]
          callbackOrEmit_eq Let_def report_def listeners_of_def)
  show ?thesis
    using s3 f2 cnt sil
    by (auto simp: l3 Let_def silent_def report_def listeners_of_def)
qed

text \<open>
  The example: \<open>listen('foo', f1)\<close> answered without error, then
  \<open>listen({channel: 'foo', listener: f7}, f2)\<close>.
\<close>

theorem listen_twice_witness:
  "connection (PgEe (Client 0)) = Some 0
   \<and> ''foo'' \<notin> set (channels (PgEe (Client 0)))
   \<and> \<not> truthy JNull
   \<and> silent (fst (listen_answered example_rt (PgEe (Client 0)) (JStr ''foo'') (JFn 1) JNull))
   \<and> commands (fst (listen example_rt
         (fst (listen_answered example_rt (PgEe (Client 0)) (JStr ''foo'') (JFn 1) JNull))
         (JObj [(''channel'', JStr ''foo''), (''listener'', JFn 7)]) (JFn 2)))
       = [Query 0 (listen_sql ''foo'') []]
   \<and> channels (fst (listen example_rt
         (fst (listen_answered example_rt (PgEe (Client 0)) (JStr ''foo'') (JFn 1) JNull))
         (JObj [(''channel'', JStr ''foo''), (''listener'', JFn 7)]) (JFn 2)))
       = [''foo'']
   \<and> listeners (fst (listen example_rt
         (fst (listen_answered example_rt (PgEe (Client 0)) (JStr ''foo'') (JFn 1) JNull))
         (JObj [(''channel'', JStr ''foo''), (''listener'', JFn 7)]) (JFn 2)))
       = [(''foo'', JFn 7)]"
proof -
  let ?s = "PgEe (Client 0)"
  let ?s2 = "fst (listen_answered example_rt ?s (JStr ''foo'') (JFn 1) JNull)"
  let ?o = "JObj [(''channel'', JStr ''foo''), (''listener'', JFn 7)]"
  have h1: "connection ?s = Some 0" by (simp add: model_defs)
  have h2: "to_string example_rt (chan_of (JStr ''foo'')) = Inr ''foo''"
    by (simp add: model_defs)
  have h3: "to_string example_rt (chan_of ?o) = Inr ''foo''" by (simp add: model_defs)
  have h4: "''foo'' \<notin> set (channels ?s)" by (simp add: model_defs)
  have h5: "\<not> truthy JNull" by simp
  have h6: "silent ?s2" by (simp add: silent_def model_defs)
  have c0: "commands ?s = []" "channels ?s = []" "listeners ?s2 = []"
    "typeof (listener_of ?o) = ''function''" "listener_of ?o = JFn 7"
    by (simp_all add: model_defs)
  from listen_twice_single_command[OF h1 h2 h3 h4 h5 refl refl, of "JFn 1" "JFn 2"]
       h1 h4 h5 h6 c0
  show ?thesis by simp
qed

text \<open>
  C1, as the specification states it, fails: when \<open>listen('foo')\<close> is called again while the
  first command is still unanswered, both calls find the registry without \<open>'foo'\<close> and
  \<open>LISTEN "foo"\<close> is sent twice. The check at lines 77-80 then keeps the registry free of
  the duplicate; it does not keep the second command from being sent.
\<close>

theorem listen_twice_in_flight_two_commands:
  "commands (fst (listen example_rt
       (fst (listen example_rt (PgEe (Client 0)) (JStr ''foo'') (JFn 1)))
       (JStr ''foo'') (JFn 2)))
     = [Query 0 (listen_sql ''foo'') [], Query 0 (listen_sql ''foo'') []]
   \<and> length (filter is_listen (commands (fst (listen example_rt
       (fst (listen example_rt (PgEe (Client 0)) (JStr ''foo'') (JFn 1)))
       (JStr ''foo'') (JFn 2))))) \<noteq> 1"
  by (simp add: model_defs)

text \<open>
  The two other conditions of the amended statement are needed as well: after a first
  command that failed, the second call sends \<open>LISTEN\<close> again; and for a channel that is
  already in the registry no call sends it.
\<close>

lemma listen_twice_first_fails:
  "commands (fst (listen example_rt
       (fst (listen_answered example_rt (PgEe (Client 0)) (JStr ''foo'') (JFn 1) (JError ''bar'')))
       (JStr ''foo'') (JFn 2)))
     = [Query 0 (listen_sql ''foo'') [], Query 0 (listen_sql ''foo'') []]"
  by (simp add: model_defs)

lemma listen_twice_already_present:
  "commands (fst (listen example_rt
       (fst (listen_answered example_rt
          (fst (listen_answered example_rt (PgEe (Client 0)) (JStr ''foo'') (JFn 1) JNull))
          (JStr ''foo'') (JFn 2) JNull))
       (JStr ''foo'') (JFn 3)))
     = commands (fst (listen_answered example_rt (PgEe (Client 0)) (JStr ''foo'') (JFn 1) JNull))"
  by (simp add: model_defs)

subsection \<open>C2: two calls in flight\<close>

text \<open>
  C2. Two \<open>listen\<close> calls for the same channel name are made before either command is
  answered; both commands are then answered without error, in either order (\<open>i = 0\<close>: the
  first call's command is answered first; \<open>i = 1\<close>: the second's). The registry then holds the
  name exactly once, neither callback throws, and both calls report success with
  \<open>(null, name)\<close>, the one answered first before the other; nothing else is reported.
  In the same way, two \<open>unlisten\<close> calls in flight on a channel that the registry holds once
  leave the registry without it and both report success.
\<close>

theorem concurrent_calls_settle:
  assumes conn: "connection s = Some c"
    and name1: "to_string rt (chan_of ch1) = Inr name"
    and name2: "to_string rt (chan_of ch2) = Inr name"
    and ok1: "\<not> truthy e1" and ok2: "\<not> truthy e2"
    and order: "i < 2"
    and cbs: "(cbA, cbB) = (if i = 0 then (cb1, cb2) else (cb2, cb1))"
  shows "(name \<notin> set (channels s) \<longrightarrow>
           (let s1 = fst (listen rt s ch1 cb1);
                s2 = fst (listen rt s1 ch2 cb2);
                r3 = query_returns rt s2 (length (pending s) + i) e1;
                r4 = query_returns rt (fst r3) (length (pending s)) e2
            in count_list (channels (fst r4)) name = 1
             \<and> snd r3 = Normal \<and> snd r4 = Normal
             \<and> trace (fst r4) = trace s
                  @ report (fst r3) cbA ''listen'' [JNull, JStr name]
                  @ report (fst r4) cbB ''listen'' [JNull, JStr name]))
       \<and> (count_list (channels s) name = 1 \<longrightarrow>
           (let s1 = fst (unlisten rt s ch1 cb1);
                s2 = fst (unlisten rt s1 ch2 cb2);
                r3 = query_returns rt s2 (length (pending s) + i) e1;
                r4 = query_returns rt (fst r3) (length (pending s)) e2
            in name \<notin> set (channels (fst r4))
             \<and> snd r3 = Normal \<and> snd r4 = Normal
             \<and> trace (fst r4) = trace s
                  @ report (fst r3) cbA ''unlisten'' [JNull, JStr name]
                  @ report (fst r4) cbB ''unlisten'' [JNull, JStr name]))"
proof (intro conjI impI)
  assume absent: "name \<notin> set (channels s)"
  define k1 where "k1 = ListenCb name (listener_of ch1) cb1"
  define k2 where "k2 = ListenCb name (listener_of ch2) cb2"
  define s1 where "s1 = fst (listen rt s ch1 cb1)"
  define s2 where "s2 = fst (listen rt s1 ch2 cb2)"
  have e1: "s1 = s\<lparr>commands := commands s @ [Query c (listen_sql name) []],
                   pending := pending s @ [k1]\<rparr>"
    unfolding s1_def k1_def using listen_issue[OF conn name1 absent] by simp
  have conn1: "connection s1 = Some c" and abs1: "name \<notin> set (channels s1)"
    using e1 conn absent by simp_all
  have e2: "s2 = s1\<lparr>commands := commands s1 @ [Query c (listen_sql name) []],
                   pending := pending s1 @ [k2]\<rparr>"
    unfolding s2_def k2_def using listen_issue[OF conn1 name2 abs1] by simp
  have p2: "pending s2 = pending s @ k1 # [k2]" "pending s2 = (pending s @ [k1]) @ k2 # []"
    using e1 e2 by simp_all
  have f2: "channels s2 = channels s" "trace s2 = trace s" "connection s2 = Some c"
    using e1 e2 conn by simp_all
  have cnt: "count_list (channels s @ [name]) name = 1"
    using absent by (simp add: count_list_0_iff)
  have two: "count_list (channels (fst r4)) name = 1
             \<and> snd r3 = Normal \<and> snd r4 = Normal
             \<and> trace (fst r4) = trace s
                  @ report (fst r3) ca ''listen'' [JNull, JStr name]
                  @ report (fst r4) cb ''listen'' [JNull, JStr name]"
    if r3: "r3 = listen_cb rt (s2\<lparr>pending := pending s @ [ListenCb name lb cb]\<rparr>) name la ca e1"
    and r4: "r4 = query_returns rt (fst r3) (length (pending s)) e2"
    for r3 r4 la ca lb cb
  proof -
    let ?t = "s2\<lparr>pending := pending s @ [ListenCb name lb cb]\<rparr>"
    have ct: "connection ?t = Some c" using f2 by simp
    note A = listen_cb_ok[OF ct ok1, of rt name la ca]
    have fa: "connection (fst r3) = Some c" "channels (fst r3) = channels s @ [name]"
      "snd r3 = Normal"
      "trace (fst r3) = trace s @ report (fst r3) ca ''listen'' [JNull, JStr name]"
      "\<exists>qs. pending (fst r3) = pending s @ ListenCb name lb cb # qs"
      using f2 absent unfolding r3 A by (simp_all add: Let_def)
    from fa(5) obtain qs where pq: "pending (fst r3) = pending s @ ListenCb name lb cb # qs"
      by blast
    let ?u = "(fst r3)\<lparr>pending := pending s @ qs\<rparr>"
    have cu: "connection ?u = Some c" using fa by simp
    have r4': "r4 = listen_cb rt ?u name lb cb e2"
      unfolding r4 using query_returns_at[OF pq, of rt e2] by simp
    note B = listen_cb_ok[OF cu ok2, of rt name lb cb]
    have fb: "channels (fst r4) = channels s @ [name]" "snd r4 = Normal"
      "trace (fst r4) = trace (fst r3) @ report (fst r4) cb ''listen'' [JNull, JStr name]"
      using fa(2) unfolding r4' B by (simp_all add: Let_def)
    show ?thesis using fa fb cnt by simp
  qed
  show "let s1 = fst (listen rt s ch1 cb1);
            s2 = fst (listen rt s1 ch2 cb2);
            r3 = query_returns rt s2 (length (pending s) + i) e1;
            r4 = query_returns rt (fst r3) (length (pending s)) e2
        in count_list (channels (fst r4)) name = 1
         \<and> snd r3 = Normal \<and> snd r4 = Normal
         \<and> trace (fst r4) = trace s
              @ report (fst r3) cbA ''listen'' [JNull, JStr name]
              @ report (fst r4) cbB ''listen'' [JNull, JStr name]"
  proof (cases "i = 0")
    case True
    have r3: "query_returns rt s2 (length (pending s) + i) e1
                = listen_cb rt (s2\<lparr>pending := pending s @ [k2]\<rparr>) name (listener_of ch1) cb1 e1"
      using query_returns_at[OF p2(1), of rt e1] True by (simp add: k1_def)
    from cbs True have ab: "cbA = cb1" "cbB = cb2" by simp_all
    show ?thesis
      unfolding Let_def s1_def[symmetric] s2_def[symmetric] ab
      using two[OF r3[unfolded k2_def] refl] by simp
  next
    case False
    with order have i1: "i = 1" by simp
    have r3: "query_returns rt s2 (length (pending s) + i) e1
                = listen_cb rt (s2\<lparr>pending := pending s @ [k1]\<rparr>) name (listener_of ch2) cb2 e1"
      using query_returns_at[OF p2(2), of rt e1] i1 by (simp add: k2_def)
    from cbs i1 have ab: "cbA = cb2" "cbB = cb1" by simp_all
    show ?thesis
      unfolding Let_def s1_def[symmetric] s2_def[symmetric] ab
      using two[OF r3[unfolded k1_def] refl] by simp
  qed
next
  assume once: "count_list (channels s) name = 1"
  then have present: "name \<in> set (channels s)"
    using count_list_0_iff[of "channels s" name] by auto
  define k1 where "k1 = UnlistenCb name (removes_of ch1) cb1"
  define k2 where "k2 = UnlistenCb name (removes_of ch2) cb2"
  define s1 where "s1 = fst (unlisten rt s ch1 cb1)"
  define s2 where "s2 = fst (unlisten rt s1 ch2 cb2)"
  have e1: "s1 = s\<lparr>commands := commands s @ [Query c (unlisten_sql name) []],
                   pending := pending s @ [k1]\<rparr>"
    unfolding s1_def k1_def using unlisten_issue[OF conn name1 present] by simp
  have conn1: "connection s1 = Some c" and pres1: "name \<in> set (channels s1)"
    using e1 conn present by simp_all
  have e2: "s2 = s1\<lparr>commands := commands s1 @ [Query c (unlisten_sql name) []],
                   pending := pending s1 @ [k2]\<rparr>"
    unfolding s2_def k2_def using unlisten_issue[OF conn1 name2 pres1] by simp
  have p2: "pending s2 = pending s @ k1 # [k2]" "pending s2 = (pending s @ [k1]) @ k2 # []"
    using e1 e2 by simp_all
  have f2: "channels s2 = channels s" "trace s2 = trace s" "connection s2 = Some c"
    using e1 e2 conn by simp_all
  have gone: "name \<notin> set (remove1 name (remove1 name (channels s)))"
    using count_one_remove1[OF once] by (simp add: remove1_idem)
  have two: "name \<notin> set (channels (fst r4))
             \<and> snd r3 = Normal \<and> snd r4 = Normal
             \<and> trace (fst r4) = trace s
                  @ report (fst r3) ca ''unlisten'' [JNull, JStr name]
                  @ report (fst r4) cb ''unlisten'' [JNull, JStr name]"
    if r3: "r3 = unlisten_cb rt (s2\<lparr>pending := pending s @ [UnlistenCb name rb cb]\<rparr>)
                   name ra ca e1"
    and r4: "r4 = query_returns rt (fst r3) (length (pending s)) e2"
    for r3 r4 ra ca rb cb
  proof -
    let ?t = "s2\<lparr>pending := pending s @ [UnlistenCb name rb cb]\<rparr>"
    have ct: "connection ?t = Some c" using f2 by simp
    from unlisten_cb_ok[OF ct ok1, of rt name ra ca] obtain t' where
      A: "r3 = (t'\<lparr>trace := trace ?t @ report t' ca ''unlisten'' [JNull, JStr name]\<rparr>, Normal)"
      and ext: "extended (?t\<lparr>channels := remove1 name (channels ?t)\<rparr>) t'"
      unfolding r3 by blast
    note F = extended_fields[OF ext]
    from F(7) obtain qs where pq': "pending t' = (pending s @ [UnlistenCb name rb cb]) @ qs"
      by auto
    have fa: "connection (fst r3) = Some c"
      "channels (fst r3) = remove1 name (channels s)" "snd r3 = Normal"
      "trace (fst r3) = trace s @ report (fst r3) ca ''unlisten'' [JNull, JStr name]"
      "pending (fst r3) = pending s @ UnlistenCb name rb cb # qs"
      using f2 F(1,2) pq' unfolding A by simp_all
    let ?u = "(fst r3)\<lparr>pending := pending s @ qs\<rparr>"
    have cu: "connection ?u = Some c" using fa by simp
    have r4': "r4 = unlisten_cb rt ?u name rb cb e2"
      unfolding r4 using query_returns_at[OF fa(5), of rt e2] by simp
    from unlisten_cb_ok[OF cu ok2, of rt name rb cb] obtain u' where
      B: "r4 = (u'\<lparr>trace := trace ?u @ report u' cb ''unlisten'' [JNull, JStr name]\<rparr>, Normal)"
      and ext': "extended (?u\<lparr>channels := remove1 name (channels ?u)\<rparr>) u'"
      unfolding r4' by blast
    note G = extended_fields[OF ext']
    have fb: "channels (fst r4) = remove1 name (remove1 name (channels s))" "snd r4 = Normal"
      "trace (fst r4) = trace (fst r3) @ report (fst r4) cb ''unlisten'' [JNull, JStr name]"
      using fa(2) G(1) unfolding B by simp_all
    show ?thesis using fa fb gone by simp
  qed
  show "let s1 = fst (unlisten rt s ch1 cb1);
            s2 = fst (unlisten rt s1 ch2 cb2);
            r3 = query_returns rt s2 (length (pending s) + i) e1;
            r4 = query_returns rt (fst r3) (length (pending s)) e2
        in name \<notin> set (channels (fst r4))
         \<and> snd r3 = Normal \<and> snd r4 = Normal
         \<and> trace (fst r4) = trace s
              @ report (fst r3) cbA ''unlisten'' [JNull, JStr name]
              @ report (fst r4) cbB ''unlisten'' [JNull, JStr name]"
  proof (cases "i = 0")
    case True
    have r3: "query_returns rt s2 (length (pending s) + i) e1
                = unlisten_cb rt (s2\<lparr>pending := pending s @ [k2]\<rparr>) name (removes_of ch1) cb1 e1"
      using query_returns_at[OF p2(1), of rt e1] True by (simp add: k1_def)
    from cbs True have ab: "cbA = cb1" "cbB = cb2" by simp_all
    show ?thesis
      unfolding Let_def s1_def[symmetric] s2_def[symmetric] ab
      using two[OF r3[unfolded k2_def] refl] by simp
  next
    case False
    with order have i1: "i = 1" by simp
    have r3: "query_returns rt s2 (length (pending s) + i) e1
                = unlisten_cb rt (s2\<lparr>pending := pending s @ [k1]\<rparr>) name (removes_of ch2) cb2 e1"
      using query_returns_at[OF p2(2), of rt e1] i1 by (simp add: k2_def)
    from cbs i1 have ab: "cbA = cb2" "cbB = cb1" by simp_all
    show ?thesis
      unfolding Let_def s1_def[symmetric] s2_def[symmetric] ab
      using two[OF r3[unfolded k1_def] refl] by simp
  qed
qed

text \<open>
  The example answers the second call first, for two \<open>listen('foo')\<close> on a fresh instance and
  for two \<open>unlisten('foo')\<close> after \<open>'foo'\<close> was subscribed.
\<close>

theorem concurrent_calls_witness:
  "connection (PgEe (Client 0)) = Some 0
   \<and> to_string example_rt (chan_of (JStr ''foo'')) = Inr ''foo''
   \<and> \<not> truthy JNull \<and> (1::nat) < 2
   \<and> ''foo'' \<notin> set (channels (PgEe (Client 0)))
   \<and> channels (fst (query_returns example_rt (fst (query_returns example_rt
         (fst (listen example_rt (fst (listen example_rt (PgEe (Client 0))
            (JStr ''foo'') (JFn 1))) (JStr ''foo'') (JFn 2))) 1 JNull)) 0 JNull)) = [''foo'']
   \<and> count_list (channels (fst (query_returns example_rt (fst (query_returns example_rt
         (fst (listen example_rt (fst (listen example_rt (PgEe (Client 0))
            (JStr ''foo'') (JFn 1))) (JStr ''foo'') (JFn 2))) 1 JNull)) 0 JNull))) ''foo'' = 1
   \<and> trace (fst (query_returns example_rt (fst (query_returns example_rt
         (fst (listen example_rt (fst (listen example_rt (PgEe (Client 0))
            (JStr ''foo'') (JFn 1))) (JStr ''foo'') (JFn 2))) 1 JNull)) 0 JNull))
       = [Called (JFn 2) [JNull, JStr ''foo''], Called (JFn 1) [JNull, JStr ''foo'']]
   \<and> count_list (channels (fst (listen_answered example_rt (PgEe (Client 0))
         (JStr ''foo'') (JFn 1) JNull))) ''foo'' = 1
   \<and> ''foo'' \<notin> set (channels (fst (query_returns example_rt (fst (query_returns example_rt
         (fst (unlisten example_rt (fst (unlisten example_rt
            (fst (listen_answered example_rt (PgEe (Client 0)) (JStr ''foo'') (JFn 1) JNull))
            (JStr ''foo'') (JFn 3))) (JStr ''foo'') (JFn 4))) 1 JNull)) 0 JNull)))"
proof -
  let ?s = "PgEe (Client 0)"
  let ?t = "fst (listen_answered example_rt ?s (JStr ''foo'') (JFn 1) JNull)"
  have h1: "connection ?s = Some 0" by (simp add: model_defs)
  have h2: "to_string example_rt (chan_of (JStr ''foo'')) = Inr ''foo''"
    by (simp add: model_defs)
  have h3: "\<not> truthy JNull" by simp
  have h4: "(1::nat) < 2" by simp
  have h5: "(JFn 2, JFn 1) = (if (1::nat) = 0 then (JFn 1, JFn 2) else (JFn 2, JFn 1))"
    by simp
  have h5': "(JFn 4, JFn 3) = (if (1::nat) = 0 then (JFn 3, JFn 4) else (JFn 4, JFn 3))"
    by simp
  have a: "''foo'' \<notin> set (channels ?s)" by (simp add: model_defs)
  have g1: "connection ?t = Some 0" by (simp add: model_defs)
  have b: "count_list (channels ?t) ''foo'' = 1" by (simp add: model_defs)
  have ev: "channels (fst (query_returns example_rt (fst (query_returns example_rt
         (fst (listen example_rt (fst (listen example_rt (PgEe (Client 0))
            (JStr ''foo'') (JFn 1))) (JStr ''foo'') (JFn 2))) 1 JNull)) 0 JNull)) = [''foo'']"
    by (simp add: model_defs)
  from concurrent_calls_settle[OF h1 h2 h2 h3 h3 h4 h5]
       concurrent_calls_settle[OF g1 h2 h2 h3 h3 h4 h5']
       h1 h2 h3 a b ev
  show ?thesis by (simp add: model_defs)
qed

subsection \<open>C3: a failed command changes nothing\<close>

text \<open>
  C3. When the answer to the \<open>LISTEN\<close> or \<open>UNLISTEN\<close> command carries an error, the registry
  and the listener table are what they were before the call, whatever listener or
  \<open>removeListeners\<close> flag the call carried, and the error is reported through the callback,
  or else the \<open>'error'\<close> event.
\<close>

theorem command_failure_leaves_state:
  assumes conn: "connection s = Some c"
    and name: "to_string rt (chan_of ch) = Inr name"
    and fail: "truthy err"
  shows "(name \<notin> set (channels s) \<longrightarrow>
           (let s2 = fst (listen_answered rt s ch cb err)
            in channels s2 = channels s \<and> listeners s2 = listeners s
             \<and> commands s2 = commands s @ [Query c (listen_sql name) []]
             \<and> trace s2 = trace s @ report s cb ''error'' [err]))
       \<and> (name \<in> set (channels s) \<longrightarrow>
           (let s2 = fst (unlisten_answered rt s ch cb err)
            in channels s2 = channels s \<and> listeners s2 = listeners s
             \<and> commands s2 = commands s @ [Query c (unlisten_sql name) []]
             \<and> trace s2 = trace s @ report s cb ''error'' [err]))"
proof (intro conjI impI)
  assume absent: "name \<notin> set (channels s)"
  show "let s2 = fst (listen_answered rt s ch cb err)
        in channels s2 = channels s \<and> listeners s2 = listeners s
         \<and> commands s2 = commands s @ [Query c (listen_sql name) []]
         \<and> trace s2 = trace s @ report s cb ''error'' [err]"
    using fail
    by (simp add: listen_answered_absent[OF conn name absent] listen_cb_def
          callbackOrEmit_eq report_def listeners_of_def)
next
  assume present: "name \<in> set (channels s)"
  show "let s2 = fst (unlisten_answered rt s ch cb err)
        in channels s2 = channels s \<and> listeners s2 = listeners s
         \<and> commands s2 = commands s @ [Query c (unlisten_sql name) []]
         \<and> trace s2 = trace s @ report s cb ''error'' [err]"
    using fail
    by (simp add: unlisten_answered_present[OF conn name present] unlisten_cb_def
          callbackOrEmit_eq report_def listeners_of_def)
qed

text \<open>
  The example: \<open>listen('foo', f1)\<close> fails on a fresh instance; and
  \<open>unlisten({channel: 'foo', removeListeners: true})\<close> fails after \<open>'foo'\<close> was subscribed and
  given the listener \<open>f5\<close>.
\<close>

theorem command_failure_witness:
  "connection (PgEe (Client 0)) = Some 0
   \<and> to_string example_rt (chan_of (JStr ''foo'')) = Inr ''foo''
   \<and> truthy (JError ''bar'')
   \<and> ''foo'' \<notin> set (channels (PgEe (Client 0)))
   \<and> channels (fst (listen_answered example_rt (PgEe (Client 0))
        (JStr ''foo'') (JFn 1) (JError ''bar''))) = []
   \<and> trace (fst (listen_answered example_rt (PgEe (Client 0))
        (JStr ''foo'') (JFn 1) (JError ''bar''))) = [Called (JFn 1) [JError ''bar'']]
   \<and> to_string example_rt
        (chan_of (JObj [(''channel'', JStr ''foo''), (''removeListeners'', JBool True)]))
        = Inr ''foo''
   \<and> ''foo'' \<in> set (channels (fst (EventEmitter_on example_rt
        (fst (listen_answered example_rt (PgEe (Client 0)) (JStr ''foo'') (JFn 1) JNull))
        ''foo'' (JFn 5))))
   \<and> channels (fst (unlisten_answered example_rt
        (fst (EventEmitter_on example_rt
           (fst (listen_answered example_rt (PgEe (Client 0)) (JStr ''foo'') (JFn 1) JNull))
           ''foo'' (JFn 5)))
        (JObj [(''channel'', JStr ''foo''), (''removeListeners'', JBool True)])
        JUndefined (JError ''bar''))) = [''foo'']
   \<and> listeners (fst (unlisten_answered example_rt
        (fst (EventEmitter_on example_rt
           (fst (listen_answered example_rt (PgEe (Client 0)) (JStr ''foo'') (JFn 1) JNull))
           ''foo'' (JFn 5)))
        (JObj [(''channel'', JStr ''foo''), (''removeListeners'', JBool True)])
        JUndefined (JError ''bar''))) = [(''foo'', JFn 5)]"
proof -
  let ?s = "PgEe (Client 0)"
  let ?t = "fst (EventEmitter_on example_rt
              (fst (listen_answered example_rt ?s (JStr ''foo'') (JFn 1) JNull)) ''foo'' (JFn 5))"
  let ?o = "JObj [(''channel'', JStr ''foo''), (''removeListeners'', JBool True)]"
  have h1: "connection ?s = Some 0" by (simp add: model_defs)
  have h2: "to_string example_rt (chan_of (JStr ''foo'')) = Inr ''foo''"
    by (simp add: model_defs)
  have h3: "truthy (JError ''bar'')" by simp
  have a: "''foo'' \<notin> set (channels ?s)" by (simp add: model_defs)
  have g1: "connection ?t = Some 0" by (simp add: model_defs)
  have g2: "to_string example_rt (chan_of ?o) = Inr ''foo''" by (simp add: model_defs)
  have b: "''foo'' \<in> set (channels ?t)" by (simp add: model_defs)
  have c: "channels ?t = [''foo'']" "listeners ?t = [(''foo'', JFn 5)]"
    "channels ?s = []" "trace ?s = []"
    by (simp_all add: model_defs)
  from command_failure_leaves_state[OF h1 h2 h3, of "JFn 1"]
       command_failure_leaves_state[OF g1 g2 h3, of JUndefined]
       h1 h2 h3 a g2 b c
  show ?thesis by (simp add: Let_def report_def)
qed

subsection \<open>C4: a payload that does not parse\<close>

text \<open>
  C4. A notification on channel \<open>foo\<close> with the payload \<open>not json\<close>, on an instance built
  around a client: the \<open>'foo'\<close> event is fired with the raw payload, and then the error thrown
  by \<open>JSON.parse\<close> leaves the handler; it is not swallowed.
\<close>

theorem notification_parse_failure_escapes:
  "connectionOnNotification example_rt (PgEe (Client 0))
       \<lparr>channel = ''foo'', payload = ''not json''\<rparr>
     = ((PgEe (Client 0))\<lparr>trace := [Fired ''foo'' [JStr ''not json'']]\<rparr>,
        Throws (JError ''Unexpected token o in JSON at position 1''))"
  by (simp add: connectionOnNotification_def example_rt_def internal_emit_eq and_then_def
        fired_def listeners_of_def PgEe_def setupConnection_def)

subsection \<open>C5: throwing from the public operations\<close>

text \<open>
  C5. \<open>connect\<close> never throws, and \<open>close\<close> does not throw on an instance that holds its
  teardown closure. \<open>listen\<close> and \<open>unlisten\<close> return when, without a connection, the callback
  is a function or an \<open>'error'\<close> listener is registered and, with a connection, the channel
  designator has a string form. \<open>emit\<close> returns when an \<open>'error'\<close> listener is registered in
  the two cases that fire an \<open>'error'\<close> event (the event name is \<open>'error'\<close>, or there is no
  connection) and otherwise when the message can be serialised.
\<close>

theorem public_operations_do_not_throw:
  "snd (connect s cb) = Normal
   \<and> (teardown_installed s \<longrightarrow> snd (close rt s) = Normal)
   \<and> ((if connection s = None
        then typeof cb = ''function'' \<or> listeners_of s ''error'' \<noteq> []
        else to_string rt (chan_of ch) = Inr name)
       \<longrightarrow> snd (listen rt s ch cb) = Normal \<and> snd (unlisten rt s ch cb) = Normal)
   \<and> ((if ev = JStr ''error'' \<or> connection s = None
        then listeners_of s ''error'' \<noteq> []
        else JSON_stringify rt m = Inr p)
       \<longrightarrow> snd (emit rt s ev m) = Normal)"
proof (intro conjI impI)
  show "snd (connect s cb) = Normal"
    by (simp add: connect_def callbackOrEmit_eq)
next
  assume ti: "teardown_installed s"
  show "snd (close rt s) = Normal"
  proof (cases "connection s")
    case None
    then show ?thesis by (simp add: close_def)
  next
    case (Some c)
    let ?s1 = "if typeof (pg_done s) = ''function''
               then s\<lparr>trace := trace s @ [Called (pg_done s) []]\<rparr> else s"
    have c1: "connection ?s1 = Some c" and t1: "tearDown ?s1 = Some c"
      using Some ti by (simp_all add: teardown_installed_def)
    from removeAllListeners_connected[OF c1, of rt None] obtain s2 where
      r: "EventEmitter_removeAllListeners rt ?s1 None = (s2, Normal)"
      and e: "extended ?s1 s2" by blast
    have "tearDown s2 = Some c" using extended_fields(4)[OF e] t1 by simp
    then show ?thesis using Some r by (simp add: close_def Let_def)
  qed
next
  assume h: "if connection s = None
             then typeof cb = ''function'' \<or> listeners_of s ''error'' \<noteq> []
             else to_string rt (chan_of ch) = Inr name"
  show "snd (listen rt s ch cb) = Normal"
  proof (cases "connection s")
    case None
    with h show ?thesis by (auto simp: listen_def callbackOrEmit_eq)
  next
    case (Some c)
    with h have nm: "to_string rt (chan_of ch) = Inr name" by simp
    show ?thesis
      by (cases "name \<in> set (channels s)")
         (simp_all add: listen_issue[OF Some nm] listen_present[OF Some nm]
            on_connected[OF Some] callbackOrEmit_eq)
  qed
  show "snd (unlisten rt s ch cb) = Normal"
  proof (cases "connection s")
    case None
    with h show ?thesis by (auto simp: unlisten_def callbackOrEmit_eq)
  next
    case (Some c)
    with h have nm: "to_string rt (chan_of ch) = Inr name" by simp
    from removeAllListeners_connected[OF Some, of rt "Some name"] obtain s' where
      r: "EventEmitter_removeAllListeners rt s (Some name) = (s', Normal)" by blast
    show ?thesis
      using r
      by (cases "name \<in> set (channels s)")
         (simp_all add: unlisten_issue[OF Some nm] unlisten_absent[OF Some nm]
            callbackOrEmit_eq)
  qed
next
  assume h: "if ev = JStr ''error'' \<or> connection s = None
             then listeners_of s ''error'' \<noteq> []
             else JSON_stringify rt m = Inr p"
  show "snd (emit rt s ev m) = Normal"
    using h by (cases "connection s") (auto simp: emit_def internal_emit_eq)
qed

text \<open>
  The example: an instance without a connection that has an \<open>'error'\<close> listener, and an
  instance built around a client.
\<close>

theorem public_operations_witness:
  "listeners_of (fst (EventEmitter_on example_rt (PgEe (Config JNull)) ''error'' (JFn 9))) ''error'' \<noteq> []
   \<and> connection (fst (EventEmitter_on example_rt (PgEe (Config JNull)) ''error'' (JFn 9))) = None
   \<and> teardown_installed (fst (EventEmitter_on example_rt (PgEe (Config JNull)) ''error'' (JFn 9)))
   \<and> snd (listen example_rt (fst (EventEmitter_on example_rt (PgEe (Config JNull)) ''error'' (JFn 9)))
        (JStr ''foo'') JUndefined) = Normal
   \<and> snd (emit example_rt (fst (EventEmitter_on example_rt (PgEe (Config JNull)) ''error'' (JFn 9)))
        (JStr ''foo'') (JStr ''bar'')) = Normal
   \<and> snd (close example_rt (fst (EventEmitter_on example_rt (PgEe (Config JNull)) ''error'' (JFn 9)))) = Normal
   \<and> connection (PgEe (Client 0)) \<noteq> None
   \<and> teardown_installed (PgEe (Client 0))
   \<and> to_string example_rt (chan_of JNull) = Inr ''null''
   \<and> JSON_stringify example_rt (JStr ''bar'') = Inr (JStr ''\"bar\"'')
   \<and> snd (listen example_rt (PgEe (Client 0)) JNull JUndefined) = Normal
   \<and> snd (unlisten example_rt (PgEe (Client 0)) JNull JUndefined) = Normal
   \<and> snd (emit example_rt (PgEe (Client 0)) (JStr ''foo'') (JStr ''bar'')) = Normal
   \<and> snd (close example_rt (PgEe (Client 0))) = Normal
   \<and> snd (connect (PgEe (Client 0)) JUndefined) = Normal"
proof -
  let ?u = "fst (EventEmitter_on example_rt (PgEe (Config JNull)) ''error'' (JFn 9))"
  let ?s = "PgEe (Client 0)"
  have u: "listeners_of ?u ''error'' \<noteq> []" "connection ?u = None" "teardown_installed ?u"
    by (simp_all add: model_defs teardown_installed_def)
  have s: "connection ?s \<noteq> None" "teardown_installed ?s"
    "to_string example_rt (chan_of JNull) = Inr ''null''"
    "JSON_stringify example_rt (JStr ''bar'') = Inr (JStr ''\"bar\"'')"
    "JStr ''foo'' \<noteq> JStr ''error''"
    by (simp_all add: model_defs teardown_installed_def)
  from public_operations_do_not_throw[of ?u JUndefined example_rt "JStr ''foo''" "''foo''"
         "JStr ''foo''" "JStr ''bar''" "JStr ''\"bar\"''"]
       public_operations_do_not_throw[of ?s JUndefined example_rt JNull "''null''"
         "JStr ''foo''" "JStr ''bar''" "JStr ''\"bar\"''"]
       u s
  show ?thesis by simp
qed

text \<open>
  C5, as the specification states it, fails: without a connection, without a callback and
  without an \<open>'error'\<close> listener, \<open>listen('foo')\<close> throws the not-connected error out of the
  call.
\<close>

theorem listen_not_connected_throws:
  "snd (listen example_rt (PgEe (Config (JStr ''postgres://localhost/postgres'')))
         (JStr ''foo'') JUndefined)
     = Throws (JError ''not connected to database'')"
  by (simp add: listen_def PgEe_def callbackOrEmit_eq listeners_of_def unhandled_def
        not_connected_def)

text \<open>
  The other two conditions are needed as well: with a connection, a channel designator
  without a string form (a symbol) makes \<open>listen\<close> throw the runtime's error.
\<close>

lemma listen_symbol_throws:
  "snd (listen example_rt (PgEe (Client 0)) (JSymbol 1) (JFn 1))
     = Throws (JError ''Cannot convert a Symbol value to a string'')"
  by (simp add: model_defs)

subsection \<open>C6: subscribe, unsubscribe, subscribe, unsubscribe\<close>

text \<open>
  C6. With a live connection and the channel absent from the registry, the sequence
  \<open>listen\<close>, \<open>unlisten\<close>, \<open>listen\<close>, \<open>unlisten\<close> for that channel, each command answered
  without error before the next call, leaves the registry as it was at the start. It sends
  exactly four commands, \<open>LISTEN\<close>, \<open>UNLISTEN\<close>, \<open>LISTEN\<close>, \<open>UNLISTEN\<close>, when the channel is
  passed as a bare name (the calls carry neither a listener nor \<open>removeListeners\<close>), or when
  no listener is registered for the emitter's announcements and the channel is not itself
  called \<open>newListener\<close> or \<open>removeListener\<close>.
\<close>

theorem listen_unlisten_twice:
  assumes conn: "connection s = Some c"
    and name: "to_string rt (chan_of ch) = Inr name"
    and absent: "name \<notin> set (channels s)"
    and ok: "\<not> truthy e1" "\<not> truthy e2" "\<not> truthy e3" "\<not> truthy e4"
    and s2: "s2 = fst (listen_answered rt s ch cb1 e1)"
    and s4: "s4 = fst (unlisten_answered rt s2 ch cb2 e2)"
    and s6: "s6 = fst (listen_answered rt s4 ch cb3 e3)"
    and s8: "s8 = fst (unlisten_answered rt s6 ch cb4 e4)"
  shows "channels s8 = channels s
       \<and> ((typeof (listener_of ch) \<noteq> ''function'' \<and> \<not> removes_of ch)
            \<or> (silent s \<and> name \<noteq> ''newListener'' \<and> name \<noteq> ''removeListener'')
          \<longrightarrow> commands s8 = commands s @
                 [Query c (listen_sql name) [], Query c (unlisten_sql name) [],
                  Query c (listen_sql name) [], Query c (unlisten_sql name) []]
             \<and> length (commands s8) = length (commands s) + 4)"
proof -
  have rm: "remove1 name (channels s @ [name]) = channels s"
    using absent by (simp add: remove1_append remove1_idem)
  note L2 = listen_step[OF conn name absent ok(1) s2]
  have in2: "name \<in> set (channels s2)" using L2(2) by simp
  note U4 = unlisten_step[OF L2(1) name in2 ok(2) s4]
  have ch4: "channels s4 = channels s" using U4(2) L2(2) rm by simp
  have out4: "name \<notin> set (channels s4)" using ch4 absent by simp
  note L6 = listen_step[OF U4(1) name out4 ok(3) s6]
  have in6: "name \<in> set (channels s6)" using L6(2) by simp
  note U8 = unlisten_step[OF L6(1) name in6 ok(4) s8]
  have ch8: "channels s8 = channels s" using U8(2) L6(2) ch4 rm by simp
  have cmds: "commands s8 = commands s @
                 [Query c (listen_sql name) [], Query c (unlisten_sql name) [],
                  Query c (listen_sql name) [], Query c (unlisten_sql name) []]"
    if h: "(typeof (listener_of ch) \<noteq> ''function'' \<and> \<not> removes_of ch)
            \<or> (silent s \<and> name \<noteq> ''newListener'' \<and> name \<noteq> ''removeListener'')"
    using h
  proof
    assume b: "typeof (listener_of ch) \<noteq> ''function'' \<and> \<not> removes_of ch"
    from b L2(4) have "commands s2 = commands s @ [Query c (listen_sql name) []]" by simp
    moreover from b U4(3) have "commands s4 = commands s2 @ [Query c (unlisten_sql name) []]"
      by simp
    moreover from b L6(4) have "commands s6 = commands s4 @ [Query c (listen_sql name) []]"
      by simp
    moreover from b U8(3) have "commands s8 = commands s6 @ [Query c (unlisten_sql name) []]"
      by simp
    ultimately show ?thesis by simp
  next
    assume q: "silent s \<and> name \<noteq> ''newListener'' \<and> name \<noteq> ''removeListener''"
    have q2: "silent s2" using q L2(3) by (auto simp: silent_def listeners_of_def)
    have c2: "commands s2 = commands s @ [Query c (listen_sql name) []]"
      using q L2(4) by (simp add: silent_def)
    from q2 U4(3) have u4: "commands s4 = commands s2 @ [Query c (unlisten_sql name) []]"
      "listeners s4 = (if removes_of ch then filter (\<lambda>p. fst p \<noteq> name) (listeners s2)
                       else listeners s2)"
      by (simp_all add: silent_def)
    have q4: "silent s4"
      using q2 u4(2) by (auto simp: silent_def listeners_of_def filter_empty_conv)
    have c6: "commands s6 = commands s4 @ [Query c (listen_sql name) []]"
      using q4 L6(4) by (simp add: silent_def)
    have q6: "silent s6" using q q4 L6(3) by (auto simp: silent_def listeners_of_def)
    from q6 U8(3) have "commands s8 = commands s6 @ [Query c (unlisten_sql name) []]"
      by (simp add: silent_def)
    with c2 u4(1) c6 show ?thesis by simp
  qed
  show ?thesis using ch8 cmds by auto
qed

text \<open>
  The example: the four calls for \<open>'foo'\<close> on a fresh instance built around a client, with the
  bare name and with \<open>{channel: 'foo', listener: f7, removeListeners: true}\<close>.
\<close>

theorem listen_unlisten_twice_witness:
  "connection (PgEe (Client 0)) = Some 0
   \<and> to_string example_rt (chan_of (JStr ''foo'')) = Inr ''foo''
   \<and> ''foo'' \<notin> set (channels (PgEe (Client 0)))
   \<and> \<not> truthy JNull
   \<and> typeof (listener_of (JStr ''foo'')) \<noteq> ''function'' \<and> \<not> removes_of (JStr ''foo'')
   \<and> channels (fst (unlisten_answered example_rt (fst (listen_answered example_rt
        (fst (unlisten_answered example_rt (fst (listen_answered example_rt (PgEe (Client 0))
          (JStr ''foo'') (JFn 1) JNull)) (JStr ''foo'') (JFn 2) JNull))
        (JStr ''foo'') (JFn 3) JNull)) (JStr ''foo'') (JFn 4) JNull)) = []
   \<and> commands (fst (unlisten_answered example_rt (fst (listen_answered example_rt
        (fst (unlisten_answered example_rt (fst (listen_answered example_rt (PgEe (Client 0))
          (JStr ''foo'') (JFn 1) JNull)) (JStr ''foo'') (JFn 2) JNull))
        (JStr ''foo'') (JFn 3) JNull)) (JStr ''foo'') (JFn 4) JNull))
      = [Query 0 (listen_sql ''foo'') [], Query 0 (unlisten_sql ''foo'') [],
         Query 0 (listen_sql ''foo'') [], Query 0 (unlisten_sql ''foo'') []]
   \<and> to_string example_rt (chan_of (JObj [(''channel'', JStr ''foo''), (''listener'', JFn 7),
        (''removeListeners'', JBool True)])) = Inr ''foo''
   \<and> silent (PgEe (Client 0)) \<and> ''foo'' \<noteq> ''newListener'' \<and> ''foo'' \<noteq> ''removeListener''
   \<and> commands (fst (unlisten_answered example_rt (fst (listen_answered example_rt
        (fst (unlisten_answered example_rt (fst (listen_answered example_rt (PgEe (Client 0))
          (JObj [(''channel'', JStr ''foo''), (''listener'', JFn 7),
                 (''removeListeners'', JBool True)]) (JFn 1) JNull))
          (JObj [(''channel'', JStr ''foo''), (''listener'', JFn 7),
                 (''removeListeners'', JBool True)]) (JFn 2) JNull))
          (JObj [(''channel'', JStr ''foo''), (''listener'', JFn 7),
                 (''removeListeners'', JBool True)]) (JFn 3) JNull))
          (JObj [(''channel'', JStr ''foo''), (''listener'', JFn 7),
                 (''removeListeners'', JBool True)]) (JFn 4) JNull))
      = [Query 0 (listen_sql ''foo'') [], Query 0 (unlisten_sql ''foo'') [],
         Query 0 (listen_sql ''foo'') [], Query 0 (unlisten_sql ''foo'') []]"
proof -
  let ?s = "PgEe (Client 0)"
  let ?o = "JObj [(''channel'', JStr ''foo''), (''listener'', JFn 7),
                  (''removeListeners'', JBool True)]"
  have h1: "connection ?s = Some 0" by (simp add: model_defs)
  have h2: "to_string example_rt (chan_of (JStr ''foo'')) = Inr ''foo''"
    by (simp add: model_defs)
  have h2': "to_string example_rt (chan_of ?o) = Inr ''foo''" by (simp add: model_defs)
  have h3: "''foo'' \<notin> set (channels ?s)" by (simp add: model_defs)
  have h4: "\<not> truthy JNull" by simp
  have b: "typeof (listener_of (JStr ''foo'')) \<noteq> ''function''" "\<not> removes_of (JStr ''foo'')"
    by (simp_all add: model_defs)
  have q: "silent ?s" "''foo'' \<noteq> ''newListener''" "''foo'' \<noteq> ''removeListener''"
    by (simp_all add: silent_def model_defs)
  have c: "channels ?s = []" "commands ?s = []" by (simp_all add: model_defs)
  from listen_unlisten_twice[OF h1 h2 h3 h4 h4 h4 h4 refl refl refl refl,
         of "JFn 1" "JFn 2" "JFn 3" "JFn 4"]
       listen_unlisten_twice[OF h1 h2' h3 h4 h4 h4 h4 refl refl refl refl,
         of "JFn 1" "JFn 2" "JFn 3" "JFn 4"]
       h1 h2 h2' h3 h4 b q c
  show ?thesis by simp
qed

text \<open>
  C6, as the specification states it, fails: on a fresh instance the sequence for \<open>'foo'\<close>
  sends four commands, not two.
\<close>

theorem listen_unlisten_twice_four_commands:
  "length (commands (fst (unlisten_answered example_rt (fst (listen_answered example_rt
        (fst (unlisten_answered example_rt (fst (listen_answered example_rt (PgEe (Client 0))
          (JStr ''foo'') (JFn 1) JNull)) (JStr ''foo'') (JFn 2) JNull))
        (JStr ''foo'') (JFn 3) JNull)) (JStr ''foo'') (JFn 4) JNull))) = 4
   \<and> length (commands (fst (unlisten_answered example_rt (fst (listen_answered example_rt
        (fst (unlisten_answered example_rt (fst (listen_answered example_rt (PgEe (Client 0))
          (JStr ''foo'') (JFn 1) JNull)) (JStr ''foo'') (JFn 2) JNull))
        (JStr ''foo'') (JFn 3) JNull)) (JStr ''foo'') (JFn 4) JNull))) \<noteq> 2
   \<and> commands (PgEe (Client 0)) = []"
  by (simp add: model_defs)

text \<open>
  The condition on the announcements is needed: with a \<open>'newListener'\<close> listener registered
  and a listener passed along, each \<open>listen\<close> sends a \<open>pg_notify\<close> besides its \<open>LISTEN\<close>.
\<close>

lemma listen_unlisten_twice_announced:
  "commands (fst (unlisten_answered example_rt (fst (listen_answered example_rt
        (fst (unlisten_answered example_rt (fst (listen_answered example_rt
          (fst (EventEmitter_on example_rt (PgEe (Client 0)) ''newListener'' (JFn 8)))
          (JObj [(''channel'', JStr ''foo''), (''listener'', JFn 7)]) (JFn 1) JNull))
          (JObj [(''channel'', JStr ''foo''), (''listener'', JFn 7)]) (JFn 2) JNull))
          (JObj [(''channel'', JStr ''foo''), (''listener'', JFn 7)]) (JFn 3) JNull))
          (JObj [(''channel'', JStr ''foo''), (''listener'', JFn 7)]) (JFn 4) JNull))
      = [Query 0 (listen_sql ''foo'') [],
         Query 0 notify_sql [JStr ''newListener'', JStr ''\"foo\"''],
         Query 0 (unlisten_sql ''foo'') [],
         Query 0 (listen_sql ''foo'') [],
         Query 0 notify_sql [JStr ''newListener'', JStr ''\"foo\"''],
         Query 0 (unlisten_sql ''foo'') []]"
  by (simp add: model_defs)

subsection \<open>C7: no connection\<close>

text \<open>
  C7. Without a connection, \<open>listen\<close>, \<open>unlisten\<close> and \<open>emit\<close> for an event other than
  \<open>'error'\<close> change nothing but the trace (no command is sent, nothing waits for an answer,
  registry and listener table stay), and the trace gains the report of the not-connected
  error: the call of the callback if it is a function, otherwise the \<open>'error'\<close> event.
\<close>

theorem not_connected_reported:
  assumes none: "connection s = None"
  shows "fst (listen rt s ch cb) = s\<lparr>trace := trace s @ report s cb ''error'' [not_connected]\<rparr>
       \<and> fst (unlisten rt s ch cb) = s\<lparr>trace := trace s @ report s cb ''error'' [not_connected]\<rparr>
       \<and> (ev \<noteq> JStr ''error'' \<longrightarrow>
            fst (emit rt s ev m) = s\<lparr>trace := trace s @ fired s ''error'' not_connected\<rparr>)"
  using none
  by (simp add: listen_def unlisten_def emit_def callbackOrEmit_eq internal_emit_eq)

text \<open>
  The example: an instance built from connection options, with a callback and without.
\<close>

theorem not_connected_witness:
  "connection (PgEe (Config JNull)) = None
   \<and> JStr ''foo'' \<noteq> JStr ''error''
   \<and> listen example_rt (PgEe (Config JNull)) (JStr ''foo'') (JFn 1)
       = ((PgEe (Config JNull))\<lparr>trace := [Called (JFn 1) [not_connected]]\<rparr>, Normal)
   \<and> fst (unlisten example_rt (PgEe (Config JNull)) (JStr ''foo'') JUndefined)
       = (PgEe (Config JNull))\<lparr>trace := [Fired ''error'' [not_connected]]\<rparr>
   \<and> fst (emit example_rt (PgEe (Config JNull)) (JStr ''foo'') (JStr ''bar''))
       = (PgEe (Config JNull))\<lparr>trace := [Fired ''error'' [not_connected]]\<rparr>"
proof -
  let ?s = "PgEe (Config JNull)"
  have h1: "connection ?s = None" by (simp add: model_defs)
  have h2: "JStr ''foo'' \<noteq> JStr ''error''" by simp
  have c: "trace ?s = []" "listeners_of ?s ''error'' = []" by (simp_all add: model_defs)
  have n: "snd (listen example_rt ?s (JStr ''foo'') (JFn 1)) = Normal"
    by (simp add: model_defs)
  from not_connected_reported[OF h1, of example_rt "JStr ''foo''" "JFn 1" "JStr ''foo''" "JStr ''bar''"]
       not_connected_reported[OF h1, of example_rt "JStr ''foo''" JUndefined "JStr ''foo''" "JStr ''bar''"]
       h1 h2 c n
  show ?thesis by (simp add: report_def fired_def prod_eq_iff)
qed

subsection \<open>C8: emitting an error\<close>

text \<open>
  C8. \<open>emit('error', m)\<close> fires the \<open>'error'\<close> event with \<open>m\<close> and changes nothing else: no
  command is sent and nothing waits for an answer. The state \<open>s\<close> is arbitrary, with or
  without a connection.
\<close>

theorem emit_error_is_local:
  "fst (emit rt s (JStr ''error'') m) = s\<lparr>trace := trace s @ fired s ''error'' m\<rparr>
   \<and> commands (fst (emit rt s (JStr ''error'') m)) = commands s
   \<and> pending (fst (emit rt s (JStr ''error'') m)) = pending s"
  by (simp add: emit_def internal_emit_eq)

text \<open>
The example: \<open>emit('error', Error('foo'))\<close> without a connection and with one.
\<close>

theorem emit_error_witness:
  "commands (fst (emit example_rt (PgEe (Config JNull)) (JStr ''error'') (JError ''foo''))) = []
   \<and> trace (fst (emit example_rt (PgEe (Config JNull)) (JStr ''error'') (JError ''foo'')))
       = [Fired ''error'' [JError ''foo'']]
   \<and> commands (fst (emit example_rt (PgEe (Client 0)) (JStr ''error'') (JError ''foo''))) = []
   \<and> trace (fst (emit example_rt (PgEe (Client 0)) (JStr ''error'') (JError ''foo'')))
       = [Fired ''error'' [JError ''foo'']]"
  using emit_error_is_local[of example_rt "PgEe (Config JNull)" "JError ''foo''"]
        emit_error_is_local[of example_rt "PgEe (Client 0)" "JError ''foo''"]
  by (simp add: model_defs)

subsection \<open>C9: emitting to the database\<close>

text \<open>
  C9. With a connection, \<open>emit\<close> for an event \<open>ev\<close> other than \<open>'error'\<close> and a message whose
  serialised form is \<open>p\<close> sends exactly one command, \<open>pg_notify\<close> with the parameters \<open>ev\<close> and
  \<open>p\<close>, and returns. When the answer carries an error, the \<open>'error'\<close> event is fired with it
  and no event named \<open>ev\<close> is fired; when it carries none, nothing is fired at all.
\<close>

theorem emit_notifies:
  assumes conn: "connection s = Some c"
    and ev: "ev \<noteq> JStr ''error''"
    and ser: "JSON_stringify rt m = Inr p"
    and s1: "s1 = fst (emit rt s ev m)"
  shows "emit rt s ev m =
           (s\<lparr>commands := commands s @ [Query c notify_sql [ev, p]],
              pending := pending s @ [EmitCb]\<rparr>, Normal)
       \<and> (truthy err \<longrightarrow>
            fst (query_returns rt s1 (length (pending s)) err) =
              s\<lparr>commands := commands s @ [Query c notify_sql [ev, p]],
                 trace := trace s @ fired s ''error'' err\<rparr>
          \<and> (\<forall>n args. ev = JStr n \<longrightarrow> Fired n args \<notin> set (fired s ''error'' err)))
       \<and> (\<not> truthy err \<longrightarrow>
            query_returns rt s1 (length (pending s)) err =
              (s\<lparr>commands := commands s @ [Query c notify_sql [ev, p]]\<rparr>, Normal))"
proof -
  have e: "emit rt s ev m =
           (s\<lparr>commands := commands s @ [Query c notify_sql [ev, p]],
              pending := pending s @ [EmitCb]\<rparr>, Normal)"
    using conn ev ser by (simp add: emit_def)
  then have p1: "pending s1 = pending s @ [EmitCb]" using s1 by simp
  have nf: "\<forall>n args. ev = JStr n \<longrightarrow> Fired n args \<notin> set (fired s ''error'' err)"
    using ev by (auto simp: fired_def)
  have q: "query_returns rt s1 (length (pending s)) err = emit_cb (s1\<lparr>pending := pending s\<rparr>) err"
    using query_returns_last[OF p1] by simp
  have s1': "s1\<lparr>pending := pending s\<rparr> = s\<lparr>commands := commands s @ [Query c notify_sql [ev, p]]\<rparr>"
    using e s1 by simp
  have bad: "truthy err \<Longrightarrow> fst (query_returns rt s1 (length (pending s)) err) =
              s\<lparr>commands := commands s @ [Query c notify_sql [ev, p]],
                 trace := trace s @ fired s ''error'' err\<rparr>"
    unfolding q s1' by (simp add: emit_cb_def internal_emit_eq fired_def listeners_of_def)
  have good: "\<not> truthy err \<Longrightarrow> query_returns rt s1 (length (pending s)) err =
              (s\<lparr>commands := commands s @ [Query c notify_sql [ev, p]]\<rparr>, Normal)"
    unfolding q s1' by (simp add: emit_cb_def)
  from e nf bad good show ?thesis by blast
qed

text \<open>
  The example: \<open>emit('foo', 'bar')\<close>, answered with an error and without.
\<close>

theorem emit_notifies_witness:
  "connection (PgEe (Client 0)) = Some 0
   \<and> JStr ''foo'' \<noteq> JStr ''error''
   \<and> JSON_stringify example_rt (JStr ''bar'') = Inr (JStr ''\"bar\"'')
   \<and> truthy (JError ''bar'') \<and> \<not> truthy JNull
   \<and> commands (fst (emit example_rt (PgEe (Client 0)) (JStr ''foo'') (JStr ''bar'')))
       = [Query 0 notify_sql [JStr ''foo'', JStr ''\"bar\"'']]
   \<and> trace (fst (query_returns example_rt
         (fst (emit example_rt (PgEe (Client 0)) (JStr ''foo'') (JStr ''bar'')))
         0 (JError ''bar''))) = [Fired ''error'' [JError ''bar'']]
   \<and> trace (fst (query_returns example_rt
         (fst (emit example_rt (PgEe (Client 0)) (JStr ''foo'') (JStr ''bar'')))
         0 JNull)) = []"
proof -
  let ?s = "PgEe (Client 0)"
  have h1: "connection ?s = Some 0" by (simp add: model_defs)
  have h2: "JStr ''foo'' \<noteq> JStr ''error''" by simp
  have h3: "JSON_stringify example_rt (JStr ''bar'') = Inr (JStr ''\"bar\"'')"
    by (simp add: model_defs)
  have t: "truthy (JError ''bar'')" "\<not> truthy JNull" by simp_all
  have c: "commands ?s = []" "trace ?s = []" "pending ?s = []"
    "listeners_of ?s ''error'' = []"
    by (simp_all add: model_defs)
  from emit_notifies[OF h1 h2 h3 refl, of "JError ''bar''"]
       emit_notifies[OF h1 h2 h3 refl, of JNull]
       h1 h2 h3 t c
  show ?thesis by (simp add: model_defs)
qed

subsection \<open>C10: events of the library do not reach the database\<close>

text \<open>
  C10. Every event the library itself fires goes to the base emitter and changes nothing
  but the trace, which gains the event and its deliveries (or the call of the callback):
  the event fired by \<open>_emit\<close>, the result reported by \<open>_callbackOrEmit\<close>, the \<open>'error'\<close> event of
  the connection's error handler, the event that routes a notification (with the parsed
  or the raw payload), the \<open>'error'\<close> event of a failed notify, and the \<open>'connect'\<close>,
  \<open>'listen'\<close>, \<open>'unlisten'\<close> and \<open>'error'\<close> results of the pool's and the queries' callbacks.
  For \<open>listen\<close> and \<open>unlisten\<close> the result is reported from the state \<open>s2\<close>, \<open>s3\<close> in which
  the registry is updated and the listener attached or the listeners removed. So no
  command is sent and no callback left pending by any of them, whatever the event is
  called, while the public \<open>emit\<close> with the same event name on a live connection sends a
  \<open>pg_notify\<close> and fires nothing.
\<close>

theorem internal_events_bypass_database:
  "fst (internal_emit s ev m) = s\<lparr>trace := trace s @ fired s ev m\<rparr>
   \<and> fst (callbackOrEmit s cb ev args) = s\<lparr>trace := trace s @ report s cb ev args\<rparr>
   \<and> fst (connectionOnError s err) = s\<lparr>trace := trace s @ fired s ''error'' err\<rparr>
   \<and> fst (connectionOnNotification rt s n)
       = s\<lparr>trace := trace s @ fired s (channel n)
                        (case JSON_parse rt (payload n) of
                           Inl e \<Rightarrow> JStr (payload n) | Inr v \<Rightarrow> v)\<rparr>
   \<and> fst (emit_cb s err)
       = (if truthy err then s\<lparr>trace := trace s @ fired s ''error'' err\<rparr> else s)
   \<and> fst (connect_cb s cb err conn dn)
       = (if truthy err then s\<lparr>trace := trace s @ report s cb ''error'' [err]\<rparr>
          else (setupConnection (s\<lparr>pg_done := dn, connection := Some conn\<rparr>) conn)
                 \<lparr>trace := trace s @ report s cb ''connect'' []\<rparr>)
   \<and> (connection s \<noteq> None \<longrightarrow>
        fst (connect s cb) = s\<lparr>trace := trace s @ report s cb ''connect'' []\<rparr>)
   \<and> (truthy err \<longrightarrow>
        fst (listen_cb rt s ch l cb err) = s\<lparr>trace := trace s @ report s cb ''error'' [err]\<rparr>
      \<and> fst (unlisten_cb rt s ch r cb err)
          = s\<lparr>trace := trace s @ report s cb ''error'' [err]\<rparr>)
   \<and> (\<not> truthy err
        \<and> (if typeof l = ''function''
            then EventEmitter_on rt
                   (if ch \<in> set (channels s) then s else s\<lparr>channels := channels s @ [ch]\<rparr>)
                   ch l
            else (if ch \<in> set (channels s) then s else s\<lparr>channels := channels s @ [ch]\<rparr>,
                  Normal)) = (s2, Normal)
       \<longrightarrow> fst (listen_cb rt s ch l cb err)
             = s2\<lparr>trace := trace s2 @ report s2 cb ''listen'' [JNull, JStr ch]\<rparr>)
   \<and> (\<not> truthy err
        \<and> (if r
            then EventEmitter_removeAllListeners rt
                   (s\<lparr>channels := remove1 ch (channels s)\<rparr>) (Some ch)
            else (s\<lparr>channels := remove1 ch (channels s)\<rparr>, Normal)) = (s3, Normal)
       \<longrightarrow> fst (unlisten_cb rt s ch r cb err)
             = s3\<lparr>trace := trace s3 @ report s3 cb ''unlisten'' [JNull, JStr ch]\<rparr>)
   \<and> (connection s = Some c \<and> ev \<noteq> ''error'' \<and> JSON_stringify rt m = Inr p \<longrightarrow>
        fst (emit rt s (JStr ev) m)
          = s\<lparr>commands := commands s @ [Query c notify_sql [JStr ev, p]],
               pending := pending s @ [EmitCb]\<rparr>)"
proof -
  have i: "fst (internal_emit s ev m) = s\<lparr>trace := trace s @ fired s ev m\<rparr>"
    by (simp add: internal_emit_eq)
  have c: "fst (callbackOrEmit s cb ev args) = s\<lparr>trace := trace s @ report s cb ev args\<rparr>"
    by (simp add: callbackOrEmit_eq)
  have e: "fst (connectionOnError s err) = s\<lparr>trace := trace s @ fired s ''error'' err\<rparr>"
    by (simp add: connectionOnError_def internal_emit_eq)
  have n: "fst (connectionOnNotification rt s n)
       = s\<lparr>trace := trace s @ fired s (channel n)
                        (case JSON_parse rt (payload n) of
                           Inl e \<Rightarrow> JStr (payload n) | Inr v \<Rightarrow> v)\<rparr>"
    by (cases "JSON_parse rt (payload n)")
       (auto simp: connectionOnNotification_def internal_emit_eq and_then_def unhandled_def
             split: completion.splits list.splits jsval.splits)
  have ec: "fst (emit_cb s err)
       = (if truthy err then s\<lparr>trace := trace s @ fired s ''error'' err\<rparr> else s)"
    by (simp add: emit_cb_def internal_emit_eq)
  have cc: "fst (connect_cb s cb err conn dn)
       = (if truthy err then s\<lparr>trace := trace s @ report s cb ''error'' [err]\<rparr>
          else (setupConnection (s\<lparr>pg_done := dn, connection := Some conn\<rparr>) conn)
                 \<lparr>trace := trace s @ report s cb ''connect'' []\<rparr>)"
    by (simp add: connect_cb_def callbackOrEmit_eq setupConnection_def report_def
          listeners_of_def)
  have co: "connection s \<noteq> None \<longrightarrow>
        fst (connect s cb) = s\<lparr>trace := trace s @ report s cb ''connect'' []\<rparr>"
    by (simp add: connect_def callbackOrEmit_eq)
  have er: "truthy err \<longrightarrow>
        fst (listen_cb rt s ch l cb err) = s\<lparr>trace := trace s @ report s cb ''error'' [err]\<rparr>
      \<and> fst (unlisten_cb rt s ch r cb err)
          = s\<lparr>trace := trace s @ report s cb ''error'' [err]\<rparr>"
    by (simp add: listen_cb_def unlisten_cb_def callbackOrEmit_eq)
  have lc: "\<not> truthy err
        \<and> (if typeof l = ''function''
            then EventEmitter_on rt
                   (if ch \<in> set (channels s) then s else s\<lparr>channels := channels s @ [ch]\<rparr>)
                   ch l
            else (if ch \<in> set (channels s) then s else s\<lparr>channels := channels s @ [ch]\<rparr>,
                  Normal)) = (s2, Normal)
       \<longrightarrow> fst (listen_cb rt s ch l cb err)
             = s2\<lparr>trace := trace s2 @ report s2 cb ''listen'' [JNull, JStr ch]\<rparr>"
    by (cases "ch \<in> set (channels s)")
       (auto simp: listen_cb_def Let_def indexOf_absent callbackOrEmit_eq)
  have s1: "(let index = indexOf (channels s) ch
             in if index \<noteq> -1 then s\<lparr>channels := splice1 (channels s) index\<rparr> else s)
            = s\<lparr>channels := remove1 ch (channels s)\<rparr>"
    by (cases "ch \<in> set (channels s)")
       (simp_all add: Let_def indexOf_absent splice1_indexOf remove1_idem)
  have uc: "\<not> truthy err
        \<and> (if r
            then EventEmitter_removeAllListeners rt
                   (s\<lparr>channels := remove1 ch (channels s)\<rparr>) (Some ch)
            else (s\<lparr>channels := remove1 ch (channels s)\<rparr>, Normal)) = (s3, Normal)
       \<longrightarrow> fst (unlisten_cb rt s ch r cb err)
             = s3\<lparr>trace := trace s3 @ report s3 cb ''unlisten'' [JNull, JStr ch]\<rparr>"
    using s1 by (auto simp: unlisten_cb_def Let_def callbackOrEmit_eq)
  have p: "connection s = Some c \<and> ev \<noteq> ''error'' \<and> JSON_stringify rt m = Inr p \<longrightarrow>
        fst (emit rt s (JStr ev) m)
          = s\<lparr>commands := commands s @ [Query c notify_sql [JStr ev, p]],
               pending := pending s @ [EmitCb]\<rparr>"
    by (simp add: emit_def)
  from i c e n ec cc co er lc uc p show ?thesis by blast
qed

text \<open>
  The example: the \<open>'connect'\<close>, \<open>'error'\<close>, \<open>'listen'\<close> and \<open>'unlisten'\<close> results without a
  callback on an instance built around a client, and the \<open>'listen'\<close> event emitted by a
  caller.
\<close>

theorem internal_events_witness:
  "connection (PgEe (Client 0)) \<noteq> None \<and> connection (PgEe (Client 0)) = Some 0
   \<and> truthy (JError ''bar'') \<and> \<not> truthy JNull \<and> ''listen'' \<noteq> ''error''
   \<and> JSON_stringify example_rt JNull = Inr (JStr ''null'')
   \<and> EventEmitter_on example_rt ((PgEe (Client 0))\<lparr>channels := [''foo'']\<rparr>) ''foo'' (JFn 7)
       = ((PgEe (Client 0))\<lparr>channels := [''foo''], listeners := [(''foo'', JFn 7)]\<rparr>, Normal)
   \<and> fst (connect (PgEe (Client 0)) JUndefined)
       = (PgEe (Client 0))\<lparr>trace := [Fired ''connect'' []]\<rparr>
   \<and> fst (listen_cb example_rt (PgEe (Client 0)) ''foo'' (JFn 7) JUndefined (JError ''bar''))
       = (PgEe (Client 0))\<lparr>trace := [Fired ''error'' [JError ''bar'']]\<rparr>
   \<and> fst (listen_cb example_rt (PgEe (Client 0)) ''foo'' (JFn 7) JUndefined JNull)
       = (PgEe (Client 0))\<lparr>channels := [''foo''], listeners := [(''foo'', JFn 7)],
                             trace := [Fired ''listen'' [JNull, JStr ''foo'']]\<rparr>
   \<and> fst (unlisten_cb example_rt ((PgEe (Client 0))\<lparr>channels := [''foo'']\<rparr>) ''foo'' False
             JUndefined JNull)
       = (PgEe (Client 0))\<lparr>channels := [], trace := [Fired ''unlisten'' [JNull, JStr ''foo'']]\<rparr>
   \<and> fst (emit example_rt (PgEe (Client 0)) (JStr ''listen'') JNull)
       = (PgEe (Client 0))\<lparr>commands := [Query 0 notify_sql [JStr ''listen'', JStr ''null'']],
                             pending := [EmitCb]\<rparr>"
proof -
  let ?s = "PgEe (Client 0)"
  let ?t = "?s\<lparr>channels := [''foo'']\<rparr>"
  have h: "connection ?s \<noteq> None" "connection ?s = Some 0" "truthy (JError ''bar'')"
    "\<not> truthy JNull" "''listen'' \<noteq> ''error''"
    "JSON_stringify example_rt JNull = Inr (JStr ''null'')"
    by (simp_all add: model_defs)
  have a: "(if typeof (JFn 7) = ''function''
            then EventEmitter_on example_rt
                   (if ''foo'' \<in> set (channels ?s) then ?s
                    else ?s\<lparr>channels := channels ?s @ [''foo'']\<rparr>) ''foo'' (JFn 7)
            else (if ''foo'' \<in> set (channels ?s) then ?s
                  else ?s\<lparr>channels := channels ?s @ [''foo'']\<rparr>, Normal))
           = (?s\<lparr>channels := [''foo''], listeners := [(''foo'', JFn 7)]\<rparr>, Normal)"
    by (simp add: model_defs)
  have b: "(if False
            then EventEmitter_removeAllListeners example_rt
                   (?t\<lparr>channels := remove1 ''foo'' (channels ?t)\<rparr>) (Some ''foo'')
            else (?t\<lparr>channels := remove1 ''foo'' (channels ?t)\<rparr>, Normal))
           = (?s\<lparr>channels := []\<rparr>, Normal)"
    by (simp add: model_defs)
  have o: "EventEmitter_on example_rt ?t ''foo'' (JFn 7)
             = (?s\<lparr>channels := [''foo''], listeners := [(''foo'', JFn 7)]\<rparr>, Normal)"
    by (simp add: model_defs)
  have v: "trace ?s = []" "commands ?s = []" "pending ?s = []" "listeners ?s = []"
    by (simp_all add: model_defs)
  from internal_events_bypass_database[where s = ?s and cb = JUndefined]
  have c1: "fst (connect ?s JUndefined) = ?s\<lparr>trace := trace ?s @ report ?s JUndefined ''connect'' []\<rparr>"
    using h(1) by blast
  from internal_events_bypass_database[where s = ?s and ev = "''listen''" and m = JNull
         and cb = JUndefined and err = "JError ''bar''" and rt = example_rt
         and ch = "''foo''" and l = "JFn 7" and c = 0 and p = "JStr ''null''"]
  have c2: "fst (listen_cb example_rt ?s ''foo'' (JFn 7) JUndefined (JError ''bar''))
              = ?s\<lparr>trace := trace ?s @ report ?s JUndefined ''error'' [JError ''bar'']\<rparr>"
    and c5: "fst (emit example_rt ?s (JStr ''listen'') JNull)
              = ?s\<lparr>commands := commands ?s @ [Query 0 notify_sql [JStr ''listen'', JStr ''null'']],
                    pending := pending ?s @ [EmitCb]\<rparr>"
    using h by blast+
  from internal_events_bypass_database[where s = ?s and cb = JUndefined and err = JNull
         and rt = example_rt and ch = "''foo''" and l = "JFn 7"
         and ?s2.0 = "?s\<lparr>channels := [''foo''], listeners := [(''foo'', JFn 7)]\<rparr>"]
  have c3: "fst (listen_cb example_rt ?s ''foo'' (JFn 7) JUndefined JNull)
              = (?s\<lparr>channels := [''foo''], listeners := [(''foo'', JFn 7)]\<rparr>)
                  \<lparr>trace := trace (?s\<lparr>channels := [''foo''], listeners := [(''foo'', JFn 7)]\<rparr>)
                     @ report (?s\<lparr>channels := [''foo''], listeners := [(''foo'', JFn 7)]\<rparr>)
                         JUndefined ''listen'' [JNull, JStr ''foo'']\<rparr>"
    using h(4) a by blast
  from internal_events_bypass_database[where s = ?t and cb = JUndefined and err = JNull
         and rt = example_rt and ch = "''foo''" and r = False
         and ?s3.0 = "?s\<lparr>channels := []\<rparr>"]
  have c4: "fst (unlisten_cb example_rt ?t ''foo'' False JUndefined JNull)
              = (?s\<lparr>channels := []\<rparr>)
                  \<lparr>trace := trace (?s\<lparr>channels := []\<rparr>)
                     @ report (?s\<lparr>channels := []\<rparr>) JUndefined ''unlisten'' [JNull, JStr ''foo'']\<rparr>"
    using h(4) b by blast
  show ?thesis
    using h o c1 c2 c3 c4 c5 v by (simp add: report_def listeners_of_def)
qed

end
